theory Spec2Isabelle
  imports Complex_Main
begin

section \<open>Numbers, vectors and matrices\<close>

text \<open>
  The filter of \<^verbatim>\<open>EKFAdaptiveFilter.cpp\<close> computes with \<^verbatim>\<open>double\<close> (and three
  \<^verbatim>\<open>float\<close> gains). The embedding idealises both as \<^typ>\<open>real\<close>: rounding is not
  modelled. IEEE arithmetic never raises: a division by zero silently yields an
  infinity or a NaN, which then spreads through every sum and product it enters. A real
  number cannot stand for such a value, so wherever the source divides, inverts a matrix
  or takes a tangent, the model returns \<open>None\<close> when the real operation has no value,
  and \<open>Some v\<close> otherwise. \<open>None\<close> therefore reads "this vector or matrix holds a
  non-finite entry".

  An \<^verbatim>\<open>Eigen::VectorXd\<close> is a list of its coefficients, an \<^verbatim>\<open>Eigen::MatrixXd\<close> (or
  \<^verbatim>\<open>Matrix3d\<close>) the list of its rows.
\<close>

type_synonym vec = "real list"
type_synonym mat = "real list list"

definition zero_vec :: "nat \<Rightarrow> vec" where
  "zero_vec n = replicate n 0"

definition zero_mat :: "nat \<Rightarrow> nat \<Rightarrow> mat" where
  "zero_mat n m = replicate n (replicate m 0)"

definition identity_mat :: "nat \<Rightarrow> mat" where
  "identity_mat n = map (\<lambda>i. map (\<lambda>j. if i = j then 1 else 0) [0..<n]) [0..<n]"

definition vec_add :: "vec \<Rightarrow> vec \<Rightarrow> vec" where
  "vec_add u v = map2 (+) u v"

definition vec_sub :: "vec \<Rightarrow> vec \<Rightarrow> vec" where
  "vec_sub u v = map2 (-) u v"

definition vec_scale :: "vec \<Rightarrow> real \<Rightarrow> vec" where
  "vec_scale v c = map (\<lambda>a. a * c) v"

definition vec_div :: "vec \<Rightarrow> real \<Rightarrow> vec option" where
  "vec_div v c = (if c = 0 then None else Some (map (\<lambda>a. a / c) v))"

definition dot :: "vec \<Rightarrow> vec \<Rightarrow> real" where
  "dot u v = sum_list (map2 (*) u v)"

definition mat_vec :: "mat \<Rightarrow> vec \<Rightarrow> vec" where
  "mat_vec A v = map (\<lambda>r. dot r v) A"

definition mat_col :: "nat \<Rightarrow> mat \<Rightarrow> vec" where
  "mat_col j A = map (\<lambda>r. r ! j) A"

definition mat_transpose :: "mat \<Rightarrow> mat" where
  "mat_transpose A = (case A of [] \<Rightarrow> [] | r # _ \<Rightarrow> map (\<lambda>j. mat_col j A) [0..<length r])"

definition mat_mul :: "mat \<Rightarrow> mat \<Rightarrow> mat" where
  "mat_mul A B = map (\<lambda>r. mat_vec (mat_transpose B) r) A"

definition mat_add :: "mat \<Rightarrow> mat \<Rightarrow> mat" where
  "mat_add A B = map2 vec_add A B"

definition mat_sub :: "mat \<Rightarrow> mat \<Rightarrow> mat" where
  "mat_sub A B = map2 vec_sub A B"

definition mat_scale :: "real \<Rightarrow> mat \<Rightarrow> mat" where
  "mat_scale c A = map (map (\<lambda>a. c * a)) A"

text \<open>\<^verbatim>\<open>v.block(i,0,p,1)\<close> and \<^verbatim>\<open>A.block(i,j,p,q)\<close>, read and written.\<close>

definition vec_block :: "nat \<Rightarrow> nat \<Rightarrow> vec \<Rightarrow> vec" where
  "vec_block i p v = take p (drop i v)"

definition mat_block :: "nat \<Rightarrow> nat \<Rightarrow> nat \<Rightarrow> nat \<Rightarrow> mat \<Rightarrow> mat" where
  "mat_block i j p q A = map (vec_block j q) (take p (drop i A))"

definition set_vec_block :: "nat \<Rightarrow> vec \<Rightarrow> vec \<Rightarrow> vec" where
  "set_vec_block j b r = take j r @ b @ drop (j + length b) r"

definition set_mat_block :: "nat \<Rightarrow> nat \<Rightarrow> mat \<Rightarrow> mat \<Rightarrow> mat" where
  "set_mat_block i j B A =
     map (\<lambda>k. if i \<le> k \<and> k < i + length B then set_vec_block j (B ! (k - i)) (A ! k) else A ! k)
       [0..<length A]"

definition set_coeff :: "nat \<Rightarrow> nat \<Rightarrow> real \<Rightarrow> mat \<Rightarrow> mat" where
  "set_coeff i j a A = A[i := (A ! i)[j := a]]"

section \<open>Configuration and constants\<close>

text \<open>
  The global variables that \<^verbatim>\<open>main\<close> loads from the node's parameters. The three gains
  are arbitrary numbers: nothing in the source checks their sign.
\<close>

record config =
  enableFilter :: bool
  enableImu :: bool
  enableWheel :: bool
  enableLidar :: bool
  lidarG :: real
  wheelG :: real
  imuG :: real
  filterFreq :: string

text \<open>
  The members behind the adaptive covariance are written once, by
  \<^verbatim>\<open>initialization()\<close>, and only read afterwards; they are constants here, with the
  values assigned there (the source's comments on the six gains name other axes than
  the variables do; the variables are what the code uses).
\<close>

definition nCorner :: real where "nCorner = 500"
definition nSurf :: real where "nSurf = 5000"
definition Gz :: real where "Gz = 0.0048"
definition Gx :: real where "Gx = 0.0022"
definition Gy :: real where "Gy = 0.0016"
definition Gpsi :: real where "Gpsi = 0.0044"
definition Gphi :: real where "Gphi = 0.0052"
definition Gtheta :: real where "Gtheta = 0.005"
definition l_min :: real where "l_min = 0.005"

definition N_STATES :: nat where "N_STATES = 12"
definition N_IMU :: nat where "N_IMU = 9"
definition N_WHEEL :: nat where "N_WHEEL = 2"
definition N_LIDAR :: nat where "N_LIDAR = 6"

section \<open>Adaptive covariance\<close>

definition adaptive_covariance :: "config \<Rightarrow> real \<Rightarrow> real \<Rightarrow> mat" where
  "adaptive_covariance cfg fCorner fSurf =
    (let cov_x = (nCorner - min fCorner nCorner) / nCorner + l_min;
         cov_y = (nCorner - min fCorner nCorner) / nCorner + l_min;
         cov_psi = (nCorner - min fCorner nCorner) / nCorner + l_min;
         cov_z = (nSurf - min fSurf nSurf) / nSurf + l_min;
         cov_phi = (nSurf - min fSurf nSurf) / nSurf + l_min;
         cov_theta = (nSurf - min fSurf nSurf) / nSurf + l_min;
         Q0 = zero_mat 6 6;
         b = lidarG cfg / 1;
         c = lidarG cfg / 1;
         Q1 = set_coeff 0 0 (b * Gx * cov_x) Q0;
         Q2 = set_coeff 1 1 (c * Gy * cov_y) Q1;
         Q3 = set_coeff 2 2 (b * Gz * cov_z) Q2;
         Q4 = set_coeff 3 3 (c * Gphi * cov_phi) Q3;
         Q5 = set_coeff 4 4 (b * Gtheta * cov_theta) Q4;
         Q6 = set_coeff 5 5 (c * Gpsi * cov_psi) Q5
     in Q6)"

text \<open>The scale of the specification, and a diagonal matrix written out.\<close>

definition spec_scale :: "real \<Rightarrow> real \<Rightarrow> real" where
  "spec_scale N f = (N - min f N) / N + l_min"

definition diag6 :: "vec \<Rightarrow> mat" where
  "diag6 d =
    [[d ! 0, 0, 0, 0, 0, 0],
     [0, d ! 1, 0, 0, 0, 0],
     [0, 0, d ! 2, 0, 0, 0],
     [0, 0, 0, d ! 3, 0, 0],
     [0, 0, 0, 0, d ! 4, 0],
     [0, 0, 0, 0, 0, d ! 5]]"

text \<open>
  The values that \<^verbatim>\<open>main\<close> declares for the parameters. The program holds the three
  gains as \<^verbatim>\<open>float\<close>, which stores 1000 as it is and the nearest 24-bit values for 0.05
  and 0.1; the decimal values stand for them here. No statement below rests on a
  cancellation that the decimal value has and the stored value has not: where an exact
  cancellation matters, the gains are 0.5, which \<^verbatim>\<open>float\<close> holds exactly.
\<close>

definition default_config :: config where
  "default_config = \<lparr>enableFilter = True, enableImu = True, enableWheel = True,
     enableLidar = True, lidarG = 1000, wheelG = 0.05, imuG = 0.1, filterFreq = ''l''\<rparr>"

definition half_gain_config :: config where
  "half_gain_config = default_config\<lparr>wheelG := 0.5, imuG := 0.5\<rparr>"

section \<open>Library functions the filter calls\<close>

text \<open>
  \<^verbatim>\<open>atan2\<close> of the C library, on the reals: the angle in \<open>(-\<pi>, \<pi>]\<close> of the point
  \<open>(x, y)\<close>, and 0 at the origin.
\<close>

definition atan2 :: "real \<Rightarrow> real \<Rightarrow> real" where
  "atan2 y x =
    (if 0 < x then arctan (y / x)
     else if x < 0 \<and> 0 \<le> y then arctan (y / x) + pi
     else if x < 0 \<and> y < 0 then arctan (y / x) - pi
     else if 0 < y then pi / 2
     else if y < 0 then - (pi / 2)
     else 0)"

text \<open>
  The rotation matrices that Eigen builds from \<^verbatim>\<open>AngleAxisd(a, Vector3d::UnitX())\<close>,
  \<^verbatim>\<open>UnitY\<close> and \<^verbatim>\<open>UnitZ\<close>.
\<close>

definition AngleAxis_UnitX :: "real \<Rightarrow> mat" where
  "AngleAxis_UnitX a = [[1, 0, 0], [0, cos a, - sin a], [0, sin a, cos a]]"

definition AngleAxis_UnitY :: "real \<Rightarrow> mat" where
  "AngleAxis_UnitY a = [[cos a, 0, sin a], [0, 1, 0], [- sin a, 0, cos a]]"

definition AngleAxis_UnitZ :: "real \<Rightarrow> mat" where
  "AngleAxis_UnitZ a = [[cos a, - sin a, 0], [sin a, cos a, 0], [0, 0, 1]]"

text \<open>
  \<^verbatim>\<open>inverse()\<close> of a fixed-size \<^verbatim>\<open>Matrix3d\<close>: Eigen divides the matrix of cofactors
  by the determinant. A zero determinant is a division by zero.
\<close>

definition det3 :: "mat \<Rightarrow> real" where
  "det3 M =
     M ! 0 ! 0 * (M ! 1 ! 1 * M ! 2 ! 2 - M ! 1 ! 2 * M ! 2 ! 1)
   - M ! 0 ! 1 * (M ! 1 ! 0 * M ! 2 ! 2 - M ! 1 ! 2 * M ! 2 ! 0)
   + M ! 0 ! 2 * (M ! 1 ! 0 * M ! 2 ! 1 - M ! 1 ! 1 * M ! 2 ! 0)"

definition cofactors3 :: "mat \<Rightarrow> mat" where
  "cofactors3 M =
     [[M ! 1 ! 1 * M ! 2 ! 2 - M ! 1 ! 2 * M ! 2 ! 1,
       M ! 0 ! 2 * M ! 2 ! 1 - M ! 0 ! 1 * M ! 2 ! 2,
       M ! 0 ! 1 * M ! 1 ! 2 - M ! 0 ! 2 * M ! 1 ! 1],
      [M ! 1 ! 2 * M ! 2 ! 0 - M ! 1 ! 0 * M ! 2 ! 2,
       M ! 0 ! 0 * M ! 2 ! 2 - M ! 0 ! 2 * M ! 2 ! 0,
       M ! 0 ! 2 * M ! 1 ! 0 - M ! 0 ! 0 * M ! 1 ! 2],
      [M ! 1 ! 0 * M ! 2 ! 1 - M ! 1 ! 1 * M ! 2 ! 0,
       M ! 0 ! 1 * M ! 2 ! 0 - M ! 0 ! 0 * M ! 2 ! 1,
       M ! 0 ! 0 * M ! 1 ! 1 - M ! 0 ! 1 * M ! 1 ! 0]]"

definition inverse3 :: "mat \<Rightarrow> mat option" where
  "inverse3 M = (if det3 M = 0 then None else Some (map (map (\<lambda>c. c / det3 M)) (cofactors3 M)))"

text \<open>
  \<^verbatim>\<open>inverse()\<close> of a dynamic-size \<^verbatim>\<open>MatrixXd\<close>: Eigen eliminates with partial
  pivoting (\<^verbatim>\<open>PartialPivLU\<close>), taking in each column the entry of largest magnitude on
  or below the diagonal as pivot. Over the reals this is Gauss-Jordan elimination of
  the matrix extended by the identity; a column whose largest candidate is zero leaves
  a zero pivot, and the division by it is the failure.
\<close>

definition pivot_index :: "nat \<Rightarrow> mat \<Rightarrow> nat" where
  "pivot_index k A =
     fold (\<lambda>i best. if \<bar>A ! best ! k\<bar> < \<bar>A ! i ! k\<bar> then i else best) [Suc k..<length A] k"

definition swap_rows :: "nat \<Rightarrow> nat \<Rightarrow> mat \<Rightarrow> mat" where
  "swap_rows i j A = A[i := A ! j, j := A ! i]"

definition eliminate :: "nat \<Rightarrow> mat \<Rightarrow> mat" where
  "eliminate k A =
     (let r = map (\<lambda>a. a / A ! k ! k) (A ! k)
      in map (\<lambda>i. if i = k then r else vec_sub (A ! i) (vec_scale r (A ! i ! k))) [0..<length A])"

fun gauss_jordan :: "nat list \<Rightarrow> mat \<Rightarrow> mat option" where
  "gauss_jordan [] A = Some A"
| "gauss_jordan (k # ks) A =
     (let p = pivot_index k A
      in if A ! p ! k = 0 then None else gauss_jordan ks (eliminate k (swap_rows k p A)))"

definition inverse_dyn :: "mat \<Rightarrow> mat option" where
  "inverse_dyn A =
     (let n = length A
      in map_option (map (drop n)) (gauss_jordan [0..<n] (map2 (@) A (identity_mat n))))"

section \<open>Models\<close>

text \<open>
  A vector or matrix that the source constructs without initial values (\<^verbatim>\<open>xp\<close>,
  \<^verbatim>\<open>u_diff\<close>, the \<^verbatim>\<open>J\<close> of the Jacobian functions) starts as zero here: the source
  assigns every coefficient before reading it.

  The Euler-rate matrix \<^verbatim>\<open>J\<close>, which \<^verbatim>\<open>f_prediction_model\<close> and
  \<^verbatim>\<open>indirect_lidar_measurement\<close> both fill with the same nine expressions. The tangent
  and the two quotients have no value where the cosine of the pitch is zero.
\<close>

definition euler_rate_jacobian :: "real \<Rightarrow> real \<Rightarrow> mat option" where
  "euler_rate_jacobian roll pitch =
     (if cos pitch = 0 then None
      else Some [[1, sin roll * tan pitch, cos roll * tan pitch],
                 [0, cos roll, - sin roll],
                 [0, sin roll / cos pitch, cos roll / cos pitch]])"

definition f_prediction_model :: "vec \<Rightarrow> real \<Rightarrow> vec option" where
  "f_prediction_model x dt =
     (let Rx = AngleAxis_UnitX (x ! 3);
          Ry = AngleAxis_UnitY (x ! 4);
          Rz = AngleAxis_UnitZ (x ! 5);
          R = mat_mul (mat_mul Rz Ry) Rx
      in case euler_rate_jacobian (x ! 3) (x ! 4) of
           None \<Rightarrow> None
         | Some J \<Rightarrow>
             let A = set_mat_block 3 3 J (set_mat_block 0 0 R (identity_mat 6));
                 xp0 = zero_vec N_STATES;
                 xp1 = set_vec_block 0
                         (vec_add (vec_block 0 6 x) (vec_scale (mat_vec A (vec_block 6 6 x)) dt)) xp0;
                 xp2 = set_vec_block 6 (vec_block 6 6 x) xp1
             in Some xp2)"

text \<open>The wrapped difference of two angles, as the source writes it for roll, pitch and yaw.\<close>

definition angle_difference :: "real \<Rightarrow> real \<Rightarrow> real" where
  "angle_difference a b = atan2 (sin (a - b)) (cos (a - b))"

definition indirect_lidar_measurement :: "vec \<Rightarrow> vec \<Rightarrow> real \<Rightarrow> vec option" where
  "indirect_lidar_measurement u ul dt =
     (let Rx = AngleAxis_UnitX (ul ! 3);
          Ry = AngleAxis_UnitY (ul ! 4);
          Rz = AngleAxis_UnitZ (ul ! 5);
          R = mat_mul (mat_mul Rz Ry) Rx;
          d0 = set_vec_block 0 (vec_sub (vec_block 0 3 u) (vec_block 0 3 ul)) (zero_vec N_LIDAR);
          d1 = d0[3 := angle_difference (u ! 3) (ul ! 3)];
          d2 = d1[4 := angle_difference (u ! 4) (ul ! 4)];
          u_diff = d2[5 := angle_difference (u ! 5) (ul ! 5)];
          A0 = set_mat_block 0 0 (mat_transpose R) (zero_mat N_LIDAR N_LIDAR)
      in case euler_rate_jacobian (ul ! 3) (ul ! 4) of
           None \<Rightarrow> None
         | Some J \<Rightarrow>
             (case inverse3 J of
                None \<Rightarrow> None
              | Some Ji \<Rightarrow> vec_div (mat_vec (set_mat_block 3 3 Ji A0) u_diff) dt))"

section \<open>Jacobians\<close>

text \<open>
  The three Jacobian functions of the source run the same loop: perturb coordinate
  \<open>i\<close> by \<open>delta\<close>, evaluate, write the difference quotient into column \<open>i\<close> and
  overwrite its rows 3 to 5 with the sine of the difference. The step is a non-zero
  literal at each call.
\<close>

fun jacobian_loop :: "(vec \<Rightarrow> vec option) \<Rightarrow> vec \<Rightarrow> real \<Rightarrow> vec \<Rightarrow> nat list \<Rightarrow> mat \<Rightarrow> mat option" where
  "jacobian_loop f x delta f0 [] J = Some J"
| "jacobian_loop f x delta f0 (i # is) J =
     (let x_plus = x[i := x ! i + delta]
      in case f x_plus of
           None \<Rightarrow> None
         | Some f1 \<Rightarrow>
             let J1 = set_mat_block 0 i (map (\<lambda>a. [a / delta]) (vec_sub f1 f0)) J;
                 J2 = set_coeff 3 i (sin (f1 ! 3 - f0 ! 3) / delta) J1;
                 J3 = set_coeff 4 i (sin (f1 ! 4 - f0 ! 4) / delta) J2;
                 J4 = set_coeff 5 i (sin (f1 ! 5 - f0 ! 5) / delta) J3
             in jacobian_loop f x delta f0 is J4)"

definition jacobian_state :: "vec \<Rightarrow> real \<Rightarrow> mat option" where
  "jacobian_state x dt =
     (case f_prediction_model x dt of
        None \<Rightarrow> None
      | Some f0 \<Rightarrow>
          jacobian_loop (\<lambda>x_plus. f_prediction_model x_plus dt) x 0.0001 f0
            [0..<N_STATES] (zero_mat N_STATES N_STATES))"

definition jacobian_lidar_measurement :: "vec \<Rightarrow> vec \<Rightarrow> real \<Rightarrow> mat option" where
  "jacobian_lidar_measurement u ul dt =
     (case indirect_lidar_measurement u ul dt of
        None \<Rightarrow> None
      | Some f0 \<Rightarrow>
          jacobian_loop (\<lambda>u_plus. indirect_lidar_measurement u_plus ul dt) u 0.0000001 f0
            [0..<N_LIDAR] (zero_mat N_LIDAR N_LIDAR))"

definition jacobian_lidar_measurementL :: "vec \<Rightarrow> vec \<Rightarrow> real \<Rightarrow> mat option" where
  "jacobian_lidar_measurementL u ul dt =
     (case indirect_lidar_measurement u ul dt of
        None \<Rightarrow> None
      | Some f0 \<Rightarrow>
          jacobian_loop (\<lambda>ul_plus. indirect_lidar_measurement u ul_plus dt) ul 0.0000001 f0
            [0..<N_LIDAR] (zero_mat N_LIDAR N_LIDAR))"

section \<open>The filter\<close>

text \<open>
  The members of \<^verbatim>\<open>AdaptiveFilter\<close> that its functions read: the measurements and
  their covariances, the state \<^verbatim>\<open>X\<close> and covariance \<^verbatim>\<open>P\<close> (each \<open>None\<close> once a
  non-finite value has entered it), the times and the flags. The members that are only
  written (\<^verbatim>\<open>V\<close>, the bias structs, \<^verbatim>\<open>velComp\<close>) and the message headers are left out.
  \<open>published\<close> is the sequence of messages handed to the two publishers so far.
\<close>

datatype publication =
    FilteredOdometry char "vec option" "mat option"
  | IndirectLidarMeasurement "vec option" "mat option"

record filter =
  imuMeasure :: vec
  wheelMeasure :: vec
  lidarMeasure :: vec
  lidarMeasureL :: vec
  E_imu :: mat
  E_wheel :: mat
  E_lidar :: mat
  E_lidarL :: mat
  E_pred :: mat
  X :: "vec option"
  P :: "mat option"
  imuTimeLast :: real
  wheelTimeLast :: real
  lidarTimeLast :: real
  imuTimeCurrent :: real
  wheelTimeCurrent :: real
  lidarTimeCurrent :: real
  imu_dt :: real
  wheel_dt :: real
  lidar_dt :: real
  imuActivated :: bool
  wheelActivated :: bool
  lidarActivated :: bool
  imuNew :: bool
  wheelNew :: bool
  lidarNew :: bool
  published :: "publication list"

text \<open>
  \<^verbatim>\<open>initialization()\<close> assigns every member above but \<^verbatim>\<open>imu_dt\<close>, which keeps
  whatever the constructed object holds.
\<close>

definition P_initial :: mat where
  "P_initial =
     set_coeff 11 11 0.1 (set_coeff 10 10 0.1 (set_coeff 9 9 0.1 (set_coeff 8 8 0.1
    (set_coeff 7 7 0.1 (set_coeff 6 6 0.1 (set_coeff 5 5 0.1 (set_coeff 4 4 0.1
    (set_coeff 3 3 0.1 (set_coeff 2 2 0.1 (set_coeff 1 1 0.1 (set_coeff 0 0 0.1
    (zero_mat N_STATES N_STATES))))))))))))"

definition initialization :: "filter \<Rightarrow> filter" where
  "initialization s =
     s\<lparr>imuTimeLast := 0, lidarTimeLast := 0, wheelTimeLast := 0,
       imuTimeCurrent := 0, lidarTimeCurrent := 0, wheelTimeCurrent := 0,
       wheel_dt := 0.05, lidar_dt := 0.1,
       imuActivated := False, lidarActivated := False, wheelActivated := False,
       imuNew := False, wheelNew := False, lidarNew := False,
       imuMeasure := zero_vec N_IMU, wheelMeasure := zero_vec N_WHEEL,
       lidarMeasure := zero_vec N_LIDAR, lidarMeasureL := zero_vec N_LIDAR,
       E_imu := zero_mat N_IMU N_IMU, E_lidar := zero_mat N_LIDAR N_LIDAR,
       E_lidarL := zero_mat N_LIDAR N_LIDAR, E_wheel := zero_mat N_WHEEL N_WHEEL,
       E_pred := set_mat_block 6 6 (mat_scale 0.01 (mat_block 6 6 6 6 P_initial))
                   (zero_mat N_STATES N_STATES),
       X := Some (zero_vec N_STATES), P := Some P_initial\<rparr>"

subsection \<open>Prediction\<close>

definition prediction_stage :: "real \<Rightarrow> filter \<Rightarrow> filter" where
  "prediction_stage dt s =
     (let F = (case X s of None \<Rightarrow> None | Some x \<Rightarrow> jacobian_state x dt);
          X' = (case X s of None \<Rightarrow> None | Some x \<Rightarrow> f_prediction_model x dt);
          P' = (case (F, P s) of
                  (Some F, Some p) \<Rightarrow>
                    Some (mat_add (mat_mul (mat_mul F p) (mat_transpose F)) (E_pred s))
                | _ \<Rightarrow> None)
      in s\<lparr>X := X', P := P'\<rparr>)"

subsection \<open>Corrections\<close>

text \<open>
  Each correction computes \<^verbatim>\<open>S\<close>, inverts it, and assigns \<^verbatim>\<open>X\<close> and \<^verbatim>\<open>P\<close>; no
  branch of the source looks at whether the inversion succeeded. The gain \<^verbatim>\<open>K\<close> holds
  the inverse, so it has no finite value when \<^verbatim>\<open>S\<close> has no inverse, and neither have
  the \<^verbatim>\<open>X\<close> and \<^verbatim>\<open>P\<close> computed from it. The argument \<^verbatim>\<open>dt\<close> is used by the range
  correction only.
\<close>

definition kalman_X :: "vec option \<Rightarrow> mat option \<Rightarrow> vec \<Rightarrow> (vec \<Rightarrow> vec) \<Rightarrow> vec option" where
  "kalman_X Xo K Y hx =
     (case (Xo, K) of
        (Some x, Some k) \<Rightarrow> Some (vec_add x (mat_vec k (vec_sub Y (hx x))))
      | _ \<Rightarrow> None)"

definition kalman_P :: "mat option \<Rightarrow> mat option \<Rightarrow> mat \<Rightarrow> mat option" where
  "kalman_P Po K H =
     (case (Po, K) of
        (Some p, Some k) \<Rightarrow> Some (mat_sub p (mat_mul (mat_mul k H) p))
      | _ \<Rightarrow> None)"

definition H_wheel :: mat where
  "H_wheel = set_coeff 1 11 1 (set_coeff 0 6 1 (zero_mat N_WHEEL N_STATES))"

definition S_wheel :: "filter \<Rightarrow> mat option" where
  "S_wheel s =
     (case P s of
        None \<Rightarrow> None
      | Some p \<Rightarrow> Some (mat_add (mat_mul (mat_mul H_wheel p) (mat_transpose H_wheel)) (E_wheel s)))"

definition K_wheel :: "filter \<Rightarrow> mat option" where
  "K_wheel s =
     (case (P s, S_wheel s) of
        (Some p, Some S) \<Rightarrow>
          (case inverse_dyn S of
             None \<Rightarrow> None
           | Some Si \<Rightarrow> Some (mat_mul (mat_mul p (mat_transpose H_wheel)) Si))
      | _ \<Rightarrow> None)"

definition correction_wheel_stage :: "real \<Rightarrow> filter \<Rightarrow> filter" where
  "correction_wheel_stage dt s =
     (let hx = (\<lambda>x. [x ! 6, x ! 11]);
          Y = wheelMeasure s;
          K = K_wheel s
      in s\<lparr>X := kalman_X (X s) K Y hx, P := kalman_P (P s) K H_wheel\<rparr>)"

definition H_imu :: mat where
  "H_imu = set_mat_block 0 3 (identity_mat 3) (zero_mat 3 N_STATES)"

definition S_imu :: "filter \<Rightarrow> mat option" where
  "S_imu s =
     (case P s of
        None \<Rightarrow> None
      | Some p \<Rightarrow>
          Some (mat_add (mat_mul (mat_mul H_imu p) (mat_transpose H_imu))
                  (mat_block 6 6 3 3 (E_imu s))))"

definition K_imu :: "filter \<Rightarrow> mat option" where
  "K_imu s =
     (case (P s, S_imu s) of
        (Some p, Some S) \<Rightarrow>
          (case inverse3 S of
             None \<Rightarrow> None
           | Some Si \<Rightarrow> Some (mat_mul (mat_mul p (mat_transpose H_imu)) Si))
      | _ \<Rightarrow> None)"

definition correction_imu_stage :: "real \<Rightarrow> filter \<Rightarrow> filter" where
  "correction_imu_stage dt s =
     (let hx = vec_block 3 3;
          Y = vec_block 6 3 (imuMeasure s);
          K = K_imu s
      in s\<lparr>X := kalman_X (X s) K Y hx, P := kalman_P (P s) K H_imu\<rparr>)"

definition H_lidar :: mat where
  "H_lidar = set_mat_block 0 6 (identity_mat N_LIDAR) (zero_mat N_LIDAR N_STATES)"

definition Y_lidar :: "real \<Rightarrow> filter \<Rightarrow> vec option" where
  "Y_lidar dt s = indirect_lidar_measurement (lidarMeasure s) (lidarMeasureL s) dt"

definition Q_lidar :: "real \<Rightarrow> filter \<Rightarrow> mat option" where
  "Q_lidar dt s =
     (case (jacobian_lidar_measurement (lidarMeasure s) (lidarMeasureL s) dt,
            jacobian_lidar_measurementL (lidarMeasure s) (lidarMeasureL s) dt) of
        (Some G, Some Gl) \<Rightarrow>
          Some (mat_add (mat_mul (mat_mul G (E_lidar s)) (mat_transpose G))
                        (mat_mul (mat_mul Gl (E_lidarL s)) (mat_transpose Gl)))
      | _ \<Rightarrow> None)"

definition publish_indirect_lidar_measurement :: "vec option \<Rightarrow> mat option \<Rightarrow> filter \<Rightarrow> filter" where
  "publish_indirect_lidar_measurement y Pi s =
     s\<lparr>published := published s @ [IndirectLidarMeasurement y Pi]\<rparr>"

definition S_lidar :: "real \<Rightarrow> filter \<Rightarrow> mat option" where
  "S_lidar dt s =
     (case (P s, Q_lidar dt s) of
        (Some p, Some Q) \<Rightarrow> Some (mat_add (mat_mul (mat_mul H_lidar p) (mat_transpose H_lidar)) Q)
      | _ \<Rightarrow> None)"

definition K_lidar :: "real \<Rightarrow> filter \<Rightarrow> mat option" where
  "K_lidar dt s =
     (case (P s, S_lidar dt s) of
        (Some p, Some S) \<Rightarrow>
          (case inverse_dyn S of
             None \<Rightarrow> None
           | Some Si \<Rightarrow> Some (mat_mul (mat_mul p (mat_transpose H_lidar)) Si))
      | _ \<Rightarrow> None)"

definition correction_lidar_stage :: "real \<Rightarrow> filter \<Rightarrow> filter" where
  "correction_lidar_stage dt s =
     (let hx = vec_block 6 6;
          Y = Y_lidar dt s;
          Q = Q_lidar dt s;
          s1 = publish_indirect_lidar_measurement Y Q s;
          K = K_lidar dt s;
          X' = (case Y of None \<Rightarrow> None | Some y \<Rightarrow> kalman_X (X s) K y hx);
          P' = kalman_P (P s) K H_lidar
      in s1\<lparr>X := X', P := P', lidarMeasureL := lidarMeasure s, E_lidarL := E_lidar s\<rparr>)"

section \<open>Callbacks\<close>

text \<open>
  The fields of the incoming messages that the callbacks read. A stamp is seconds and
  nanoseconds; a vector is the list of its \<open>x\<close>, \<open>y\<close>, \<open>z\<close> (and \<open>w\<close>); a covariance is
  the row-major array of the message. \<open>getRPY\<close> stands for the conversion of the
  orientation quaternion into roll, pitch and yaw by the \<^verbatim>\<open>tf2\<close> library, which the
  callbacks take as given.
\<close>

record imu_msg =
  imu_stamp_sec :: int
  imu_stamp_nanosec :: nat
  imu_orientation :: vec
  imu_orientation_covariance :: vec
  imu_angular_velocity :: vec
  imu_angular_velocity_covariance :: vec
  imu_linear_acceleration :: vec
  imu_linear_acceleration_covariance :: vec

record odometry_msg =
  stamp_sec :: int
  stamp_nanosec :: nat
  pose_position :: vec
  pose_orientation :: vec
  twist_linear :: vec
  twist_angular :: vec
  twist_covariance :: vec

definition stamp_seconds :: "int \<Rightarrow> nat \<Rightarrow> real" where
  "stamp_seconds sec nanosec = real_of_int sec + real nanosec * (1 / 1000000000)"

definition matrix3_of :: "vec \<Rightarrow> mat" where
  "matrix3_of c = [[c ! 0, c ! 1, c ! 2], [c ! 3, c ! 4, c ! 5], [c ! 6, c ! 7, c ! 8]]"

definition imuHandler :: "(vec \<Rightarrow> vec) \<Rightarrow> config \<Rightarrow> imu_msg \<Rightarrow> filter \<Rightarrow> filter" where
  "imuHandler getRPY cfg imuIn s =
     (let s1 = (if imuActivated s
                then s\<lparr>imuTimeLast := imuTimeCurrent s,
                       imuTimeCurrent := stamp_seconds (imu_stamp_sec imuIn) (imu_stamp_nanosec imuIn)\<rparr>
                else s\<lparr>imuTimeCurrent := stamp_seconds (imu_stamp_sec imuIn) (imu_stamp_nanosec imuIn),
                       imuTimeLast := stamp_seconds (imu_stamp_sec imuIn) (imu_stamp_nanosec imuIn) + 0.01,
                       imuActivated := True\<rparr>);
          rpy = getRPY (imu_orientation imuIn);
          m1 = set_vec_block 0 [imu_linear_acceleration imuIn ! 0, imu_linear_acceleration imuIn ! 1,
                                imu_linear_acceleration imuIn ! 2] (imuMeasure s1);
          m2 = set_vec_block 3 [imu_angular_velocity imuIn ! 0, imu_angular_velocity imuIn ! 1,
                                imu_angular_velocity imuIn ! 2] m1;
          m3 = set_vec_block 6 [rpy ! 0, rpy ! 1, rpy ! 2] m2;
          e1 = set_mat_block 0 0 (matrix3_of (imu_linear_acceleration_covariance imuIn)) (E_imu s1);
          e2 = set_mat_block 3 3 (matrix3_of (imu_angular_velocity_covariance imuIn)) e1;
          e3 = set_mat_block 6 6 (matrix3_of (imu_orientation_covariance imuIn)) e2;
          e4 = set_mat_block 6 6 (mat_scale (imuG cfg) (mat_block 6 6 3 3 e3)) e3;
          s2 = s1\<lparr>imuMeasure := m3, E_imu := e4\<rparr>;
          s3 = s2\<lparr>imu_dt := imuTimeCurrent s2 - imuTimeLast s2\<rparr>;
          s4 = s3\<lparr>imu_dt := 0.01\<rparr>
      in s4\<lparr>imuNew := True\<rparr>)"

definition wheelOdometryHandler :: "config \<Rightarrow> odometry_msg \<Rightarrow> filter \<Rightarrow> filter" where
  "wheelOdometryHandler cfg wheelOdometry s =
     (let s1 = (if wheelActivated s
                then s\<lparr>wheelTimeLast := wheelTimeCurrent s,
                       wheelTimeCurrent := stamp_seconds (stamp_sec wheelOdometry) (stamp_nanosec wheelOdometry)\<rparr>
                else s\<lparr>wheelTimeCurrent := stamp_seconds (stamp_sec wheelOdometry) (stamp_nanosec wheelOdometry),
                       wheelTimeLast := stamp_seconds (stamp_sec wheelOdometry) (stamp_nanosec wheelOdometry) + 0.05,
                       wheelActivated := True\<rparr>);
          s2 = s1\<lparr>wheelMeasure := [1.0 * twist_linear wheelOdometry ! 0, twist_angular wheelOdometry ! 2]\<rparr>;
          s3 = s2\<lparr>E_wheel := set_coeff 0 0 (wheelG cfg * twist_covariance wheelOdometry ! 0) (E_wheel s2)\<rparr>;
          s4 = s3\<lparr>E_wheel := set_coeff 1 1 (100 * twist_covariance wheelOdometry ! 35) (E_wheel s3)\<rparr>;
          s5 = s4\<lparr>wheel_dt := wheelTimeCurrent s4 - wheelTimeLast s4\<rparr>;
          s6 = s5\<lparr>wheel_dt := 0.05\<rparr>
      in s6\<lparr>wheelNew := True\<rparr>)"

definition laserOdometryHandler :: "(vec \<Rightarrow> vec) \<Rightarrow> config \<Rightarrow> odometry_msg \<Rightarrow> filter \<Rightarrow> filter" where
  "laserOdometryHandler getRPY cfg laserOdometry s =
     (let s1 = (if lidarActivated s
                then s\<lparr>lidarTimeLast := lidarTimeCurrent s,
                       lidarTimeCurrent := stamp_seconds (stamp_sec laserOdometry) (stamp_nanosec laserOdometry)\<rparr>
                else s\<lparr>lidarTimeCurrent := stamp_seconds (stamp_sec laserOdometry) (stamp_nanosec laserOdometry),
                       lidarTimeLast := stamp_seconds (stamp_sec laserOdometry) (stamp_nanosec laserOdometry) + 0.1,
                       lidarActivated := True\<rparr>);
          rpy = getRPY (pose_orientation laserOdometry);
          m1 = set_vec_block 0 [pose_position laserOdometry ! 0, pose_position laserOdometry ! 1,
                                pose_position laserOdometry ! 2] (lidarMeasure s1);
          m2 = set_vec_block 3 [rpy ! 0, rpy ! 1, rpy ! 2] m1;
          corner = twist_linear laserOdometry ! 0;
          surf = twist_angular laserOdometry ! 0;
          s2 = s1\<lparr>lidarMeasure := m2, E_lidar := adaptive_covariance cfg corner surf\<rparr>;
          s3 = s2\<lparr>lidar_dt := lidarTimeCurrent s2 - lidarTimeLast s2\<rparr>;
          s4 = s3\<lparr>lidar_dt := 0.1\<rparr>
      in s4\<lparr>lidarNew := True\<rparr>)"

section \<open>The loop\<close>

definition publish_odom :: "char \<Rightarrow> filter \<Rightarrow> filter" where
  "publish_odom model s = s\<lparr>published := published s @ [FilteredOdometry model (X s) (P s)]\<rparr>"

text \<open>
  One turn of the \<^verbatim>\<open>while\<close> loop of \<^verbatim>\<open>run()\<close>, in its four blocks. \<open>t_now\<close> is the
  clock reading of the turn and \<open>t_last\<close> the local variable that keeps the previous
  one. \<^verbatim>\<open>spin_some\<close> then runs the callbacks of the messages that have arrived.
\<close>

definition run_prediction :: "config \<Rightarrow> real \<Rightarrow> filter \<times> real \<Rightarrow> filter \<times> real" where
  "run_prediction cfg t_now st =
     (case st of (s, t_last) \<Rightarrow>
        if enableFilter cfg then
          (let dt_now = t_now - t_last;
               s1 = prediction_stage dt_now s;
               s2 = (if filterFreq cfg = ''p'' then publish_odom CHR ''p'' s1 else s1)
           in (s2, t_now))
        else (s, t_last))"

definition run_imu :: "config \<Rightarrow> filter \<Rightarrow> filter" where
  "run_imu cfg s =
     (if enableFilter cfg \<and> enableImu cfg \<and> imuActivated s \<and> imuNew s then
        (let s1 = correction_imu_stage (imu_dt s) s;
             s2 = (if filterFreq cfg = ''i'' then publish_odom CHR ''i'' s1 else s1)
         in s2\<lparr>imuNew := False\<rparr>)
      else s)"

definition run_wheel :: "config \<Rightarrow> filter \<Rightarrow> filter" where
  "run_wheel cfg s =
     (if enableFilter cfg \<and> enableWheel cfg \<and> wheelActivated s \<and> wheelNew s then
        (let s1 = correction_wheel_stage (wheel_dt s) s;
             s2 = (if filterFreq cfg = ''w'' then publish_odom CHR ''w'' s1 else s1)
         in s2\<lparr>wheelNew := False\<rparr>)
      else s)"

definition run_lidar :: "config \<Rightarrow> filter \<Rightarrow> filter" where
  "run_lidar cfg s =
     (if enableFilter cfg \<and> enableLidar cfg \<and> lidarActivated s \<and> lidarNew s then
        (let s1 = correction_lidar_stage (lidar_dt s) s;
             s2 = (if filterFreq cfg = ''l'' then publish_odom CHR ''l'' s1 else s1)
         in s2\<lparr>lidarNew := False\<rparr>)
      else s)"

datatype message = ImuMsg imu_msg | WheelMsg odometry_msg | LaserMsg odometry_msg

fun callback :: "(vec \<Rightarrow> vec) \<Rightarrow> config \<Rightarrow> message \<Rightarrow> filter \<Rightarrow> filter" where
  "callback getRPY cfg (ImuMsg m) s = imuHandler getRPY cfg m s"
| "callback getRPY cfg (WheelMsg m) s = wheelOdometryHandler cfg m s"
| "callback getRPY cfg (LaserMsg m) s = laserOdometryHandler getRPY cfg m s"

definition spin_some :: "(vec \<Rightarrow> vec) \<Rightarrow> config \<Rightarrow> message list \<Rightarrow> filter \<Rightarrow> filter" where
  "spin_some getRPY cfg ms s = fold (callback getRPY cfg) ms s"

definition run_turn :: "(vec \<Rightarrow> vec) \<Rightarrow> config \<Rightarrow> real \<times> message list \<Rightarrow> filter \<times> real \<Rightarrow> filter \<times> real" where
  "run_turn getRPY cfg turn st =
     (case turn of (t_now, ms) \<Rightarrow>
        case run_prediction cfg t_now st of (s1, t_last1) \<Rightarrow>
          (spin_some getRPY cfg ms (run_lidar cfg (run_wheel cfg (run_imu cfg s1))), t_last1))"

text \<open>
  \<^verbatim>\<open>run()\<close> over the turns it makes before shutdown, each with its clock reading and
  the messages that \<^verbatim>\<open>spin_some\<close> finds.
\<close>

definition run :: "(vec \<Rightarrow> vec) \<Rightarrow> config \<Rightarrow> (real \<times> message list) list \<Rightarrow> filter \<times> real \<Rightarrow> filter \<times> real" where
  "run getRPY cfg turns st = fold (run_turn getRPY cfg) turns st"

section \<open>The specification's terms\<close>

text \<open>
  The matrix \<open>A\<close> of the specification, written out: the rotation \<open>Rz(yaw) Ry(pitch) Rx(roll)\<close>
  in closed form on the position block, the Euler-rate matrix on the angle block, zero
  elsewhere.
\<close>

definition A_spec :: "real \<Rightarrow> real \<Rightarrow> real \<Rightarrow> mat" where
  "A_spec roll pitch yaw =
    [[cos yaw * cos pitch, cos yaw * sin pitch * sin roll - sin yaw * cos roll,
        cos yaw * sin pitch * cos roll + sin yaw * sin roll, 0, 0, 0],
     [sin yaw * cos pitch, sin yaw * sin pitch * sin roll + cos yaw * cos roll,
        sin yaw * sin pitch * cos roll - cos yaw * sin roll, 0, 0, 0],
     [- sin pitch, cos pitch * sin roll, cos pitch * cos roll, 0, 0, 0],
     [0, 0, 0, 1, sin roll * tan pitch, cos roll * tan pitch],
     [0, 0, 0, 0, cos roll, - sin roll],
     [0, 0, 0, 0, sin roll / cos pitch, cos roll / cos pitch]]"

text \<open>The Euler-rate matrix at given angles exists and Eigen's inversion of it succeeds.\<close>

definition euler_rate_invertible :: "real \<Rightarrow> real \<Rightarrow> bool" where
  "euler_rate_invertible roll pitch =
     (case euler_rate_jacobian roll pitch of None \<Rightarrow> False | Some J \<Rightarrow> inverse3 J \<noteq> None)"

text \<open>
  The matrix that \<^verbatim>\<open>jacobian_state\<close> returns at \<open>dt = 0\<close>: the identity, but for
  the three angle rows, whose diagonal entry is \<open>sin(\<delta>)/\<delta>\<close> at the step \<open>\<delta> = 0.0001\<close>.
\<close>

definition F_dt0 :: mat where
  "F_dt0 =
     set_coeff 5 5 (sin 0.0001 / 0.0001)
       (set_coeff 4 4 (sin 0.0001 / 0.0001)
          (set_coeff 3 3 (sin 0.0001 / 0.0001) (identity_mat N_STATES)))"

text \<open>
  A covariance with its angle rows and its angle columns (3 to 5) each scaled by
  \<open>sin(\<delta>)/\<delta>\<close>: the product \<open>F P F\<^sup>T\<close> for that matrix \<open>F\<close>.
\<close>

definition angle_rows_scaled :: "mat \<Rightarrow> mat" where
  "angle_rows_scaled p =
     map (\<lambda>i. map (\<lambda>j. (if 3 \<le> i \<and> i \<le> 5 then sin 0.0001 / 0.0001 else 1) * p ! i ! j *
                          (if 3 \<le> j \<and> j \<le> 5 then sin 0.0001 / 0.0001 else 1)) [0..<12]) [0..<12]"

text \<open>A filter object before \<^verbatim>\<open>initialization()\<close> has run, with every member blank.\<close>

definition blank_filter :: filter where
  "blank_filter =
     \<lparr>imuMeasure = [], wheelMeasure = [], lidarMeasure = [], lidarMeasureL = [],
      E_imu = [], E_wheel = [], E_lidar = [], E_lidarL = [], E_pred = [],
      X = None, P = None,
      imuTimeLast = 0, wheelTimeLast = 0, lidarTimeLast = 0,
      imuTimeCurrent = 0, wheelTimeCurrent = 0, lidarTimeCurrent = 0,
      imu_dt = 0, wheel_dt = 0, lidar_dt = 0,
      imuActivated = False, wheelActivated = False, lidarActivated = False,
      imuNew = False, wheelNew = False, lidarNew = False,
      published = []\<rparr>"

text \<open>
  The states the node can be in between two steps: after \<^verbatim>\<open>initialization()\<close>, after a
  callback, and after each of the four blocks of a turn of \<^verbatim>\<open>run()\<close>.
\<close>

inductive reachable :: "(vec \<Rightarrow> vec) \<Rightarrow> config \<Rightarrow> filter \<Rightarrow> bool" for getRPY :: "vec \<Rightarrow> vec" and cfg :: config where
  reachable_init: "reachable getRPY cfg (initialization s)"
| reachable_callback: "reachable getRPY cfg s \<Longrightarrow> reachable getRPY cfg (callback getRPY cfg m s)"
| reachable_prediction:
    "reachable getRPY cfg s \<Longrightarrow> reachable getRPY cfg (fst (run_prediction cfg t_now (s, t_last)))"
| reachable_imu: "reachable getRPY cfg s \<Longrightarrow> reachable getRPY cfg (run_imu cfg s)"
| reachable_wheel: "reachable getRPY cfg s \<Longrightarrow> reachable getRPY cfg (run_wheel cfg s)"
| reachable_lidar: "reachable getRPY cfg s \<Longrightarrow> reachable getRPY cfg (run_lidar cfg s)"

text \<open>The same, as long as no range correction has run.\<close>

inductive before_range_correction :: "(vec \<Rightarrow> vec) \<Rightarrow> config \<Rightarrow> filter \<Rightarrow> bool"
  for getRPY :: "vec \<Rightarrow> vec" and cfg :: config where
  before_init: "before_range_correction getRPY cfg (initialization s)"
| before_callback:
    "before_range_correction getRPY cfg s \<Longrightarrow> before_range_correction getRPY cfg (callback getRPY cfg m s)"
| before_prediction:
    "before_range_correction getRPY cfg s \<Longrightarrow>
     before_range_correction getRPY cfg (fst (run_prediction cfg t_now (s, t_last)))"
| before_imu: "before_range_correction getRPY cfg s \<Longrightarrow> before_range_correction getRPY cfg (run_imu cfg s)"
| before_wheel: "before_range_correction getRPY cfg s \<Longrightarrow> before_range_correction getRPY cfg (run_wheel cfg s)"

text \<open>
  The three correction blocks of the loop as the specification describes them, with the
  elapsed times written as the constants.
\<close>

definition run_imu_fixed :: "config \<Rightarrow> filter \<Rightarrow> filter" where
  "run_imu_fixed cfg s =
     (if enableFilter cfg \<and> enableImu cfg \<and> imuActivated s \<and> imuNew s then
        (let s1 = correction_imu_stage 0.01 s;
             s2 = (if filterFreq cfg = ''i'' then publish_odom CHR ''i'' s1 else s1)
         in s2\<lparr>imuNew := False\<rparr>)
      else s)"

definition run_wheel_fixed :: "config \<Rightarrow> filter \<Rightarrow> filter" where
  "run_wheel_fixed cfg s =
     (if enableFilter cfg \<and> enableWheel cfg \<and> wheelActivated s \<and> wheelNew s then
        (let s1 = correction_wheel_stage 0.05 s;
             s2 = (if filterFreq cfg = ''w'' then publish_odom CHR ''w'' s1 else s1)
         in s2\<lparr>wheelNew := False\<rparr>)
      else s)"

definition run_lidar_fixed :: "config \<Rightarrow> filter \<Rightarrow> filter" where
  "run_lidar_fixed cfg s =
     (if enableFilter cfg \<and> enableLidar cfg \<and> lidarActivated s \<and> lidarNew s then
        (let s1 = correction_lidar_stage 0.1 s;
             s2 = (if filterFreq cfg = ''l'' then publish_odom CHR ''l'' s1 else s1)
         in s2\<lparr>lidarNew := False\<rparr>)
      else s)"

text \<open>Sample messages and a sample quaternion conversion, for concrete runs.\<close>

definition level_RPY :: "vec \<Rightarrow> vec" where
  "level_RPY q = [0, 0, 0]"

definition sample_wheel :: odometry_msg where
  "sample_wheel =
     \<lparr>stamp_sec = 10, stamp_nanosec = 0, pose_position = [0, 0, 0], pose_orientation = [0, 0, 0, 1],
      twist_linear = [0, 0, 0], twist_angular = [0, 0, 0], twist_covariance = replicate 36 1\<rparr>"

definition sample_laser :: odometry_msg where
  "sample_laser =
     \<lparr>stamp_sec = 10, stamp_nanosec = 0, pose_position = [1, 2, 3], pose_orientation = [0, 0, 0, 1],
      twist_linear = [250, 0, 0], twist_angular = [2500, 0, 0], twist_covariance = replicate 36 0\<rparr>"

definition sample_imu :: imu_msg where
  "sample_imu =
     \<lparr>imu_stamp_sec = 10, imu_stamp_nanosec = 0, imu_orientation = [0, 0, 0, 1],
      imu_orientation_covariance = [1, 0, 0, 0, 1, 0, 0, 0, 1],
      imu_angular_velocity = [0, 0, 0],
      imu_angular_velocity_covariance = [0, 0, 0, 0, 0, 0, 0, 0, 0],
      imu_linear_acceleration = [0, 0, 0],
      imu_linear_acceleration_covariance = [0, 0, 0, 0, 0, 0, 0, 0, 0]\<rparr>"

text \<open>
  An inertial message whose orientation covariance starts with \<open>-1\<close>, the value by which
  a \<^verbatim>\<open>sensor_msgs/Imu\<close> message says that it carries no orientation estimate.
\<close>

definition imu_without_orientation :: imu_msg where
  "imu_without_orientation = sample_imu\<lparr>imu_orientation_covariance := [- 1, 0, 0, 0, 0, 0, 0, 0, 0]\<rparr>"

text \<open>
  The innovation covariance \<^verbatim>\<open>S\<close> of a correction has a value and its inversion
  succeeds, or has a value and its inversion fails.
\<close>

definition wheel_innovation_invertible :: "filter \<Rightarrow> bool" where
  "wheel_innovation_invertible s = (case S_wheel s of None \<Rightarrow> False | Some S \<Rightarrow> inverse_dyn S \<noteq> None)"

definition imu_innovation_invertible :: "filter \<Rightarrow> bool" where
  "imu_innovation_invertible s = (case S_imu s of None \<Rightarrow> False | Some S \<Rightarrow> inverse3 S \<noteq> None)"

definition wheel_innovation_singular :: "filter \<Rightarrow> bool" where
  "wheel_innovation_singular s = (case S_wheel s of None \<Rightarrow> False | Some S \<Rightarrow> inverse_dyn S = None)"

definition imu_innovation_singular :: "filter \<Rightarrow> bool" where
  "imu_innovation_singular s = (case S_imu s of None \<Rightarrow> False | Some S \<Rightarrow> inverse3 S = None)"

definition lidar_innovation_singular :: "real \<Rightarrow> filter \<Rightarrow> bool" where
  "lidar_innovation_singular dt s = (case S_lidar dt s of None \<Rightarrow> False | Some S \<Rightarrow> inverse_dyn S = None)"

text \<open>A matrix of \<open>n\<close> rows of \<open>m\<close> coefficients each.\<close>

definition mat_dims :: "nat \<Rightarrow> nat \<Rightarrow> mat \<Rightarrow> bool" where
  "mat_dims n m A \<longleftrightarrow> length A = n \<and> (\<forall>r\<in>set A. length r = m)"

text \<open>The initial state with the covariance \<open>P\<close> set to zero.\<close>

definition certain_filter :: filter where
  "certain_filter = (initialization blank_filter)\<lparr>P := Some (zero_mat N_STATES N_STATES)\<rparr>"

text \<open>
  A filter whose state is zero and whose covariance is \<open>0.5 I\<close>, and that filter after
  an inertial message without orientation estimate, and after a wheel and an inertial
  sample message, with the gains 0.5. Every number that enters the innovation
  covariances of these states (0, 0.5, 1, -1, 100) is held exactly by \<^verbatim>\<open>float\<close> and
  \<^verbatim>\<open>double\<close>, and so is every sum and product formed from them, so the program
  computes the matrices that the model computes.
\<close>

definition P_half :: mat where
  "P_half = mat_scale 0.5 (identity_mat N_STATES)"

definition half_filter :: filter where
  "half_filter = (initialization blank_filter)\<lparr>P := Some P_half\<rparr>"

definition no_orientation_state :: filter where
  "no_orientation_state = imuHandler level_RPY half_gain_config imu_without_orientation half_filter"

definition sampled_state :: filter where
  "sampled_state =
     imuHandler level_RPY half_gain_config sample_imu
       (wheelOdometryHandler half_gain_config sample_wheel half_filter)"

text \<open>The initial state after a first range odometry message.\<close>

definition scanned_state :: filter where
  "scanned_state = laserOdometryHandler level_RPY default_config sample_laser (initialization blank_filter)"

section \<open>Evaluation and shape lemmas\<close>

lemma upt_0_2: "[0..<2] = [0, 1]"
  by code_simp

lemma upt_0_3: "[0..<3] = [0, 1, 2]"
  by code_simp

lemma upt_0_6: "[0..<6] = [0, 1, 2, 3, 4, 5]"
  by code_simp

lemma upt_0_12: "[0..<12] = [0, 1, 2, 3, 4, 5, 6, 7, 8, 9, 10, 11]"
  by code_simp

lemmas upts = upt_0_2 upt_0_3 upt_0_6 upt_0_12

lemma length_6_list: "length x = 6 \<Longrightarrow> \<exists>a0 a1 a2 a3 a4 a5. x = [a0, a1, a2, a3, a4, a5]"
  by (auto simp: length_Suc_conv numeral_eq_Suc)

lemma length_12_list:
  "length x = 12 \<Longrightarrow>
   \<exists>a0 a1 a2 a3 a4 a5 a6 a7 a8 a9 a10 a11. x = [a0, a1, a2, a3, a4, a5, a6, a7, a8, a9, a10, a11]"
  by (auto simp: length_Suc_conv numeral_eq_Suc)

lemma dot_zero_right: "dot r (replicate n 0) = 0"
proof (induction r arbitrary: n)
  case Nil
  then show ?case by (simp add: dot_def)
next
  case (Cons a r)
  then show ?case by (cases n) (simp_all add: dot_def)
qed

lemma mat_vec_zero: "mat_vec A (replicate n 0) = replicate (length A) 0"
  by (induction A) (simp_all add: mat_vec_def dot_zero_right)

lemma length_set_mat_block: "length (set_mat_block i j B A) = length A"
  by (simp add: set_mat_block_def)

lemma vec_add_zero_right: "length z = length x \<Longrightarrow> \<forall>a\<in>set z. a = 0 \<Longrightarrow> vec_add x z = x"
proof (induction x arbitrary: z)
  case Nil
  then show ?case by (simp add: vec_add_def)
next
  case (Cons a x)
  then show ?case by (cases z) (simp_all add: vec_add_def)
qed

lemma zero_mat_12_12:
  "zero_mat 12 12 =
    [[0, 0, 0, 0, 0, 0, 0, 0, 0, 0, 0, 0],
     [0, 0, 0, 0, 0, 0, 0, 0, 0, 0, 0, 0],
     [0, 0, 0, 0, 0, 0, 0, 0, 0, 0, 0, 0],
     [0, 0, 0, 0, 0, 0, 0, 0, 0, 0, 0, 0],
     [0, 0, 0, 0, 0, 0, 0, 0, 0, 0, 0, 0],
     [0, 0, 0, 0, 0, 0, 0, 0, 0, 0, 0, 0],
     [0, 0, 0, 0, 0, 0, 0, 0, 0, 0, 0, 0],
     [0, 0, 0, 0, 0, 0, 0, 0, 0, 0, 0, 0],
     [0, 0, 0, 0, 0, 0, 0, 0, 0, 0, 0, 0],
     [0, 0, 0, 0, 0, 0, 0, 0, 0, 0, 0, 0],
     [0, 0, 0, 0, 0, 0, 0, 0, 0, 0, 0, 0],
     [0, 0, 0, 0, 0, 0, 0, 0, 0, 0, 0, 0]]"
  by (simp add: zero_mat_def numeral_eq_Suc)

lemma sin_less_self:
  fixes x :: real
  assumes "0 < x" "x < 2"
  shows "sin x < x"
proof -
  have h: "0 < x / 2" "x / 2 < pi / 2"
    using assms pi_ge_two by simp_all
  have s: "0 < sin (x / 2)"
    using h by (intro sin_gt_zero2) simp_all
  have le: "sin (x / 2) \<le> x / 2"
    using h by (intro sin_x_le_x) simp
  have c: "cos (x / 2) < 1"
    using cos_double_less_one [of "x / 4"] assms by simp
  have "sin x = 2 * sin (x / 2) * cos (x / 2)"
    using sin_double [of "x / 2"] by simp
  also have "\<dots> < 2 * sin (x / 2) * 1"
    using s c by (intro mult_strict_left_mono) simp_all
  also have "\<dots> \<le> x"
    using le by simp
  finally show ?thesis .
qed

lemma cos_small_nonzero:
  fixes x :: real
  assumes "0 \<le> x" "x < 1"
  shows "cos x \<noteq> 0"
proof -
  have "0 < cos x"
    using assms pi_ge_two by (intro cos_gt_zero_pi) simp_all
  then show ?thesis by simp
qed

lemma zero_mat_6_6:
  "zero_mat 6 6 = [[0,0,0,0,0,0],[0,0,0,0,0,0],[0,0,0,0,0,0],[0,0,0,0,0,0],[0,0,0,0,0,0],[0,0,0,0,0,0]]"
  by (simp add: zero_mat_def numeral_eq_Suc)

section \<open>What each step leaves alone\<close>

lemma imuHandler_fields:
  "wheel_dt (imuHandler g cfg m s) = wheel_dt s"
  "lidar_dt (imuHandler g cfg m s) = lidar_dt s"
  "imu_dt (imuHandler g cfg m s) = 0.01"
  "lidarMeasureL (imuHandler g cfg m s) = lidarMeasureL s"
  "E_lidarL (imuHandler g cfg m s) = E_lidarL s"
  "E_wheel (imuHandler g cfg m s) = E_wheel s"
  "imuNew (imuHandler g cfg m s) = True"
  by (cases "imuActivated s"; simp add: imuHandler_def Let_def)+

lemma wheelOdometryHandler_fields:
  "wheel_dt (wheelOdometryHandler cfg m s) = 0.05"
  "lidar_dt (wheelOdometryHandler cfg m s) = lidar_dt s"
  "imu_dt (wheelOdometryHandler cfg m s) = imu_dt s"
  "imuNew (wheelOdometryHandler cfg m s) = imuNew s"
  "lidarMeasureL (wheelOdometryHandler cfg m s) = lidarMeasureL s"
  "E_lidarL (wheelOdometryHandler cfg m s) = E_lidarL s"
  "E_wheel (wheelOdometryHandler cfg m s) =
     set_coeff 1 1 (100 * twist_covariance m ! 35)
       (set_coeff 0 0 (wheelG cfg * twist_covariance m ! 0) (E_wheel s))"
  by (cases "wheelActivated s"; simp add: wheelOdometryHandler_def Let_def)+

lemma laserOdometryHandler_fields:
  "wheel_dt (laserOdometryHandler g cfg m s) = wheel_dt s"
  "lidar_dt (laserOdometryHandler g cfg m s) = 0.1"
  "imu_dt (laserOdometryHandler g cfg m s) = imu_dt s"
  "imuNew (laserOdometryHandler g cfg m s) = imuNew s"
  "lidarMeasureL (laserOdometryHandler g cfg m s) = lidarMeasureL s"
  "E_lidarL (laserOdometryHandler g cfg m s) = E_lidarL s"
  "E_wheel (laserOdometryHandler g cfg m s) = E_wheel s"
  by (cases "lidarActivated s"; simp add: laserOdometryHandler_def Let_def)+

lemmas handler_fields = imuHandler_fields wheelOdometryHandler_fields laserOdometryHandler_fields

lemma stage_fields:
  "imu_dt (prediction_stage dt s) = imu_dt s" "wheel_dt (prediction_stage dt s) = wheel_dt s"
  "lidar_dt (prediction_stage dt s) = lidar_dt s" "imuNew (prediction_stage dt s) = imuNew s"
  "imu_dt (correction_imu_stage dt s) = imu_dt s" "wheel_dt (correction_imu_stage dt s) = wheel_dt s"
  "lidar_dt (correction_imu_stage dt s) = lidar_dt s" "imuNew (correction_imu_stage dt s) = imuNew s"
  "imu_dt (correction_wheel_stage dt s) = imu_dt s" "wheel_dt (correction_wheel_stage dt s) = wheel_dt s"
  "lidar_dt (correction_wheel_stage dt s) = lidar_dt s" "imuNew (correction_wheel_stage dt s) = imuNew s"
  "imu_dt (correction_lidar_stage dt s) = imu_dt s" "wheel_dt (correction_lidar_stage dt s) = wheel_dt s"
  "lidar_dt (correction_lidar_stage dt s) = lidar_dt s" "imuNew (correction_lidar_stage dt s) = imuNew s"
  "imu_dt (publish_odom c s) = imu_dt s" "wheel_dt (publish_odom c s) = wheel_dt s"
  "lidar_dt (publish_odom c s) = lidar_dt s" "imuNew (publish_odom c s) = imuNew s"
  by (simp_all add: prediction_stage_def correction_imu_stage_def correction_wheel_stage_def
      correction_lidar_stage_def publish_indirect_lidar_measurement_def publish_odom_def Let_def)

lemma stage_E_wheel:
  "E_wheel (prediction_stage dt s) = E_wheel s"
  "E_wheel (correction_imu_stage dt s) = E_wheel s"
  "E_wheel (correction_wheel_stage dt s) = E_wheel s"
  "E_wheel (correction_lidar_stage dt s) = E_wheel s"
  "E_wheel (publish_odom c s) = E_wheel s"
  by (simp_all add: prediction_stage_def correction_imu_stage_def correction_wheel_stage_def
      correction_lidar_stage_def publish_indirect_lidar_measurement_def publish_odom_def Let_def)

lemma reachable_dts:
  "reachable getRPY cfg s \<Longrightarrow> (imuNew s \<longrightarrow> imu_dt s = 0.01) \<and> wheel_dt s = 0.05 \<and> lidar_dt s = 0.1"
proof (induction rule: reachable.induct)
  case (reachable_init s)
  then show ?case by (simp add: initialization_def)
next
  case (reachable_callback s m)
  then show ?case by (cases m) (simp_all add: handler_fields)
next
  case (reachable_prediction s t_now t_last)
  then show ?case by (simp add: run_prediction_def stage_fields Let_def)
next
  case (reachable_imu s)
  then show ?case by (simp add: run_imu_def stage_fields Let_def)
next
  case (reachable_wheel s)
  then show ?case by (simp add: run_wheel_def stage_fields Let_def)
next
  case (reachable_lidar s)
  then show ?case by (simp add: run_lidar_def stage_fields Let_def)
qed

lemma reachable_E_wheel: "reachable getRPY cfg s \<Longrightarrow> \<exists>a d. E_wheel s = [[a, 0], [0, d]]"
proof (induction rule: reachable.induct)
  case (reachable_init s)
  then show ?case by (simp add: initialization_def zero_mat_def N_WHEEL_def numeral_eq_Suc)
next
  case (reachable_callback s m)
  then show ?case by (cases m) (auto simp: handler_fields set_coeff_def)
next
  case (reachable_prediction s t_now t_last)
  then show ?case by (simp add: run_prediction_def stage_E_wheel Let_def)
next
  case (reachable_imu s)
  then show ?case by (simp add: run_imu_def stage_E_wheel Let_def)
next
  case (reachable_wheel s)
  then show ?case by (simp add: run_wheel_def stage_E_wheel Let_def)
next
  case (reachable_lidar s)
  then show ?case by (simp add: run_lidar_def stage_E_wheel Let_def)
qed

lemma run_reachable:
  "reachable getRPY cfg s \<Longrightarrow> reachable getRPY cfg (fst (run getRPY cfg turns (s, t_last)))"
proof (induction turns arbitrary: s t_last)
  case Nil
  then show ?case by (simp add: run_def)
next
  case (Cons a turns)
  obtain t_now ms where a: "a = (t_now, ms)" by (cases a)
  obtain s1 t1 where p: "run_prediction cfg t_now (s, t_last) = (s1, t1)" by (cases "run_prediction cfg t_now (s, t_last)")
  have "reachable getRPY cfg s1"
    using reachable_prediction [OF Cons.prems, of t_now t_last] p by simp
  then have r: "reachable getRPY cfg (run_lidar cfg (run_wheel cfg (run_imu cfg s1)))"
    by (intro reachable_lidar reachable_wheel reachable_imu)
  have sp: "reachable getRPY cfg s' \<Longrightarrow> reachable getRPY cfg (spin_some getRPY cfg ms s')" for s'
    unfolding spin_some_def
    by (induction ms arbitrary: s') (simp_all add: reachable_callback)
  show ?case
    using Cons.IH [OF sp [OF r], of t1]
    by (simp add: run_def run_turn_def a p)
qed

section \<open>Shapes of matrices and where the Jacobians have a value\<close>

lemma set_coeff_dims: "mat_dims n m A \<Longrightarrow> mat_dims n m (set_coeff i j a A)"
proof -
  assume d: "mat_dims n m A"
  show ?thesis
  proof (cases "i < length A")
    case True
    then have "length ((A ! i)[j := a]) = m" using d by (simp add: mat_dims_def)
    then show ?thesis
      using d True by (auto simp: mat_dims_def set_coeff_def dest!: set_update_subset_insert [THEN subsetD])
  next
    case False
    then show ?thesis using d by (simp add: set_coeff_def list_update_beyond)
  qed
qed

lemma set_column_dims:
  assumes "mat_dims n m A" "i < m"
  shows "mat_dims n m (set_mat_block 0 i (map (\<lambda>a. [a / d]) v) A)"
proof -
  have "length (set_vec_block i [c] r) = m" if "length r = m" for c r
    using that assms(2) by (simp add: set_vec_block_def)
  then show ?thesis
    using assms(1) by (auto simp: mat_dims_def set_mat_block_def)
qed

lemma jacobian_loop_defined:
  assumes "mat_dims n m J" "\<forall>i\<in>set is. i < m \<and> f (x[i := x ! i + delta]) \<noteq> None"
  shows "\<exists>J'. jacobian_loop f x delta f0 is J = Some J' \<and> mat_dims n m J'"
  using assms
proof (induction "is" arbitrary: J)
  case Nil
  then show ?case by simp
next
  case (Cons i "is")
  from Cons.prems(2) obtain f1 where f1: "f (x[i := x ! i + delta]) = Some f1" and i: "i < m"
    by auto
  let ?J = "set_coeff 5 i (sin (f1 ! 5 - f0 ! 5) / delta)
             (set_coeff 4 i (sin (f1 ! 4 - f0 ! 4) / delta)
               (set_coeff 3 i (sin (f1 ! 3 - f0 ! 3) / delta)
                 (set_mat_block 0 i (map (\<lambda>a. [a / delta]) (vec_sub f1 f0)) J)))"
  have "mat_dims n m ?J"
    by (intro set_coeff_dims set_column_dims Cons.prems(1) i)
  from Cons.IH [OF this] Cons.prems(2) show ?case
    by (simp add: f1 Let_def)
qed

lemma det3_euler:
  assumes "cos p \<noteq> 0"
  shows "det3 [[1, sin r * tan p, cos r * tan p], [0, cos r, - sin r], [0, sin r / cos p, cos r / cos p]]
         = 1 / cos p"
proof -
  have "(cos r * cos r + sin r * sin r) / cos p = 1 / cos p"
    by (simp only: sin_cos_squared_add3)
  then have e: "cos r * cos r / cos p + sin r * sin r / cos p = 1 / cos p"
    by (simp only: add_divide_distrib)
  show ?thesis
    by (simp add: det3_def) (rule e)
qed

lemma euler_invertible: "cos p \<noteq> 0 \<Longrightarrow> euler_rate_invertible r p"
  by (simp add: euler_rate_invertible_def euler_rate_jacobian_def inverse3_def det3_euler)

lemma indirect_defined:
  assumes "cos (ul ! 4) \<noteq> 0" "dt \<noteq> 0"
  shows "indirect_lidar_measurement u ul dt \<noteq> None"
  using assms euler_invertible [OF assms(1), of "ul ! 3"]
  by (auto simp: indirect_lidar_measurement_def Let_def vec_div_def euler_rate_invertible_def
      split: option.splits)

lemma zero_mat_dims: "mat_dims n m (zero_mat n m)"
  by (simp add: mat_dims_def zero_mat_def)

lemma jacobian_lidar_measurement_defined:
  assumes "cos (ul ! 4) \<noteq> 0" "dt \<noteq> 0"
  shows "\<exists>G. jacobian_lidar_measurement u ul dt = Some G \<and> mat_dims 6 6 G"
proof -
  from indirect_defined [OF assms] obtain f0 where f0: "indirect_lidar_measurement u ul dt = Some f0"
    by auto
  have "\<forall>i\<in>set [0..<6]. i < 6 \<and> indirect_lidar_measurement (u[i := u ! i + 0.0000001]) ul dt \<noteq> None"
    using indirect_defined [OF assms] by simp
  from jacobian_loop_defined [OF zero_mat_dims this, where n = 6 and ?f0.0 = f0]
  show ?thesis
    by (simp add: jacobian_lidar_measurement_def f0 N_LIDAR_def)
qed

lemma jacobian_lidar_measurementL_defined:
  assumes "\<forall>i<6. cos ((ul[i := ul ! i + 0.0000001]) ! 4) \<noteq> 0" "cos (ul ! 4) \<noteq> 0" "dt \<noteq> 0"
  shows "\<exists>G. jacobian_lidar_measurementL u ul dt = Some G \<and> mat_dims 6 6 G"
proof -
  from indirect_defined [OF assms(2,3)] obtain f0 where f0: "indirect_lidar_measurement u ul dt = Some f0"
    by auto
  have "\<forall>i\<in>set [0..<6]. i < 6 \<and> indirect_lidar_measurement u (ul[i := ul ! i + 0.0000001]) dt \<noteq> None"
    using indirect_defined [OF _ assms(3)] assms(1) by simp
  from jacobian_loop_defined [OF zero_mat_dims this, where n = 6 and ?f0.0 = f0]
  show ?thesis
    by (simp add: jacobian_lidar_measurementL_def f0 N_LIDAR_def)
qed

lemma mat_transpose_zero: "mat_transpose (zero_mat 6 6) = zero_mat 6 6"
  by (simp add: zero_mat_6_6 mat_transpose_def mat_col_def upts)

lemma dot_zero_left: "dot (replicate n 0) r = 0"
proof (induction r arbitrary: n)
  case Nil
  then show ?case by (simp add: dot_def)
next
  case (Cons a r)
  then show ?case by (cases n) (simp_all add: dot_def)
qed

lemma length_mat_transpose: "mat_dims n m A \<Longrightarrow> 0 < n \<Longrightarrow> length (mat_transpose A) = m"
  by (cases A) (auto simp: mat_dims_def mat_transpose_def)

lemma mat_mul_zero_middle:
  assumes "mat_dims 6 6 G"
  shows "mat_mul (mat_mul G (zero_mat 6 6)) (mat_transpose G) = zero_mat 6 6"
proof -
  have a: "mat_vec (zero_mat 6 6) r = replicate 6 0" for r
    by (simp add: mat_vec_def zero_mat_def dot_zero_left)
  have "mat_mul G (zero_mat 6 6) = replicate (length G) (replicate 6 0)"
    by (simp add: mat_mul_def mat_transpose_zero a map_replicate_const)
  then have b: "mat_mul G (zero_mat 6 6) = zero_mat 6 6"
    using assms by (simp add: mat_dims_def zero_mat_def)
  have Gt: "mat_dims 6 6 (mat_transpose G)"
    using assms by (cases G) (auto simp: mat_dims_def mat_transpose_def mat_col_def)
  have "length (mat_transpose (mat_transpose G)) = 6"
    by (rule length_mat_transpose [OF Gt]) simp
  then have "mat_vec (mat_transpose (mat_transpose G)) (replicate 6 0) = replicate 6 0"
    by (simp add: mat_vec_zero)
  then show ?thesis
    by (simp add: b) (simp add: mat_mul_def zero_mat_def)
qed
section \<open>The Kalman update\<close>

lemma length_mat_mul: "length (mat_mul A B) = length A"
  by (simp add: mat_mul_def)

lemma vec_sub_self: "vec_sub v v = replicate (length v) 0"
  by (induction v) (simp_all add: vec_sub_def)

lemma kalman_X_fixed_point:
  assumes "length k = length x" "vec_sub Y (hx x) = replicate n 0"
  shows "kalman_X (Some x) (Some k) Y hx = Some x"
  using assms by (simp add: kalman_X_def mat_vec_zero vec_add_zero_right)

lemma K_wheel_length: "K_wheel s = Some k \<Longrightarrow> P s = Some p \<Longrightarrow> length k = length p"
  by (auto simp: K_wheel_def S_wheel_def length_mat_mul split: option.splits)

lemma K_imu_length: "K_imu s = Some k \<Longrightarrow> P s = Some p \<Longrightarrow> length k = length p"
  by (auto simp: K_imu_def S_imu_def length_mat_mul split: option.splits)

lemma K_wheel_Some: "P s = Some p \<Longrightarrow> wheel_innovation_invertible s \<Longrightarrow> \<exists>k. K_wheel s = Some k"
  by (auto simp: K_wheel_def S_wheel_def wheel_innovation_invertible_def split: option.splits)

lemma K_imu_Some: "P s = Some p \<Longrightarrow> imu_innovation_invertible s \<Longrightarrow> \<exists>k. K_imu s = Some k"
  by (auto simp: K_imu_def S_imu_def imu_innovation_invertible_def split: option.splits)

lemma K_wheel_None: "wheel_innovation_singular s \<Longrightarrow> K_wheel s = None"
  by (auto simp: K_wheel_def wheel_innovation_singular_def split: option.splits)

lemma K_imu_None: "imu_innovation_singular s \<Longrightarrow> K_imu s = None"
  by (auto simp: K_imu_def imu_innovation_singular_def split: option.splits)

lemma K_lidar_None: "lidar_innovation_singular dt s \<Longrightarrow> K_lidar dt s = None"
  by (auto simp: K_lidar_def lidar_innovation_singular_def split: option.splits)

lemma kalman_None: "kalman_X Xo None Y hx = None" "kalman_P Po None H = None"
  by (simp_all add: kalman_X_def kalman_P_def split: option.splits)

lemma wheel_fixed_point:
  assumes "X s = Some x" "length x = 12" "P s = Some p" "length p = 12"
    and "wheelMeasure s = [x ! 6, x ! 11]" "wheel_innovation_invertible s"
  shows "X (correction_wheel_stage dt s) = Some x"
proof -
  from K_wheel_Some [OF assms(3,6)] obtain k where k: "K_wheel s = Some k" ..
  have l: "length k = length x"
    using K_wheel_length [OF k assms(3)] assms(2,4) by simp
  have "vec_sub [x ! 6, x ! 11] [x ! 6, x ! 11] = replicate 2 0"
    by (simp add: vec_sub_def numeral_eq_Suc)
  from kalman_X_fixed_point [OF l, of "[x ! 6, x ! 11]" "\<lambda>x. [x ! 6, x ! 11]", OF this]
  show ?thesis
    by (simp add: correction_wheel_stage_def Let_def assms(1,5) k)
qed

lemma imu_fixed_point:
  assumes "X s = Some x" "length x = 12" "P s = Some p" "length p = 12"
    and "vec_block 6 3 (imuMeasure s) = vec_block 3 3 x" "imu_innovation_invertible s"
  shows "X (correction_imu_stage dt s) = Some x"
proof -
  from K_imu_Some [OF assms(3,6)] obtain k where k: "K_imu s = Some k" ..
  have l: "length k = length x"
    using K_imu_length [OF k assms(3)] assms(2,4) by simp
  from kalman_X_fixed_point [OF l, of "vec_block 3 3 x" "vec_block 3 3", OF vec_sub_self]
  show ?thesis
    by (simp add: correction_imu_stage_def Let_def assms(1,5) k)
qed

lemma singular_imu:
  assumes "imu_innovation_singular s"
  shows "X (correction_imu_stage dt s) = None \<and> P (correction_imu_stage dt s) = None \<and>
         published (correction_imu_stage dt s) = published s"
  by (simp add: correction_imu_stage_def Let_def K_imu_None [OF assms] kalman_None)

lemma singular_wheel:
  assumes "wheel_innovation_singular s"
  shows "X (correction_wheel_stage dt s) = None \<and> P (correction_wheel_stage dt s) = None \<and>
         published (correction_wheel_stage dt s) = published s"
  by (simp add: correction_wheel_stage_def Let_def K_wheel_None [OF assms] kalman_None)

lemma singular_lidar:
  assumes "lidar_innovation_singular dt s"
  shows "X (correction_lidar_stage dt s) = None \<and> P (correction_lidar_stage dt s) = None \<and>
         published (correction_lidar_stage dt s) =
           published s @ [IndirectLidarMeasurement (Y_lidar dt s) (Q_lidar dt s)]"
  by (simp add: correction_lidar_stage_def Let_def K_lidar_None [OF assms] kalman_None
      publish_indirect_lidar_measurement_def split: option.splits)

section \<open>Sample states\<close>

lemma P_initial_explicit:
  "P_initial =
    [[0.1, 0, 0, 0, 0, 0, 0, 0, 0, 0, 0, 0],
     [0, 0.1, 0, 0, 0, 0, 0, 0, 0, 0, 0, 0],
     [0, 0, 0.1, 0, 0, 0, 0, 0, 0, 0, 0, 0],
     [0, 0, 0, 0.1, 0, 0, 0, 0, 0, 0, 0, 0],
     [0, 0, 0, 0, 0.1, 0, 0, 0, 0, 0, 0, 0],
     [0, 0, 0, 0, 0, 0.1, 0, 0, 0, 0, 0, 0],
     [0, 0, 0, 0, 0, 0, 0.1, 0, 0, 0, 0, 0],
     [0, 0, 0, 0, 0, 0, 0, 0.1, 0, 0, 0, 0],
     [0, 0, 0, 0, 0, 0, 0, 0, 0.1, 0, 0, 0],
     [0, 0, 0, 0, 0, 0, 0, 0, 0, 0.1, 0, 0],
     [0, 0, 0, 0, 0, 0, 0, 0, 0, 0, 0.1, 0],
     [0, 0, 0, 0, 0, 0, 0, 0, 0, 0, 0, 0.1]]"
  by (simp add: P_initial_def N_STATES_def zero_mat_12_12 set_coeff_def)

lemma E_pred_initial:
  "E_pred (initialization s) =
    [[0, 0, 0, 0, 0, 0, 0, 0, 0, 0, 0, 0],
     [0, 0, 0, 0, 0, 0, 0, 0, 0, 0, 0, 0],
     [0, 0, 0, 0, 0, 0, 0, 0, 0, 0, 0, 0],
     [0, 0, 0, 0, 0, 0, 0, 0, 0, 0, 0, 0],
     [0, 0, 0, 0, 0, 0, 0, 0, 0, 0, 0, 0],
     [0, 0, 0, 0, 0, 0, 0, 0, 0, 0, 0, 0],
     [0, 0, 0, 0, 0, 0, 0.001, 0, 0, 0, 0, 0],
     [0, 0, 0, 0, 0, 0, 0, 0.001, 0, 0, 0, 0],
     [0, 0, 0, 0, 0, 0, 0, 0, 0.001, 0, 0, 0],
     [0, 0, 0, 0, 0, 0, 0, 0, 0, 0.001, 0, 0],
     [0, 0, 0, 0, 0, 0, 0, 0, 0, 0, 0.001, 0],
     [0, 0, 0, 0, 0, 0, 0, 0, 0, 0, 0, 0.001]]"
  by (simp add: initialization_def P_initial_explicit N_STATES_def zero_mat_12_12 set_mat_block_def
      set_vec_block_def mat_block_def vec_block_def mat_scale_def upts)

lemma initial_state:
  "X (initialization s) = Some [0, 0, 0, 0, 0, 0, 0, 0, 0, 0, 0, 0]"
  "P (initialization s) = Some P_initial"
  by (simp_all add: initialization_def zero_vec_def N_STATES_def numeral_eq_Suc)

lemma vec_block_3_3_zero: "vec_block 3 3 [0, 0, 0, 0, 0, 0, 0, 0, 0, 0, 0, 0 :: real] = [0, 0, 0]"
  by (simp add: vec_block_def)

lemma handler_XP:
  "X (imuHandler g cfg m s) = X s" "P (imuHandler g cfg m s) = P s"
  "X (wheelOdometryHandler cfg w s) = X s" "P (wheelOdometryHandler cfg w s) = P s"
  "X (laserOdometryHandler g cfg w s) = X s" "P (laserOdometryHandler g cfg w s) = P s"
  by (cases "imuActivated s"; cases "wheelActivated s"; cases "lidarActivated s";
      simp add: imuHandler_def wheelOdometryHandler_def laserOdometryHandler_def Let_def)+

lemma imuHandler_measure:
  "imuMeasure (imuHandler g cfg m s) =
     set_vec_block 6 [g (imu_orientation m) ! 0, g (imu_orientation m) ! 1, g (imu_orientation m) ! 2]
       (set_vec_block 3 [imu_angular_velocity m ! 0, imu_angular_velocity m ! 1, imu_angular_velocity m ! 2]
          (set_vec_block 0 [imu_linear_acceleration m ! 0, imu_linear_acceleration m ! 1,
                            imu_linear_acceleration m ! 2] (imuMeasure s)))"
  "E_imu (imuHandler g cfg m s) =
     (let e3 = set_mat_block 6 6 (matrix3_of (imu_orientation_covariance m))
                 (set_mat_block 3 3 (matrix3_of (imu_angular_velocity_covariance m))
                    (set_mat_block 0 0 (matrix3_of (imu_linear_acceleration_covariance m)) (E_imu s)))
      in set_mat_block 6 6 (mat_scale (imuG cfg) (mat_block 6 6 3 3 e3)) e3)"
  by (cases "imuActivated s"; simp add: imuHandler_def Let_def)+

lemma wheelHandler_measure:
  "wheelMeasure (wheelOdometryHandler cfg m s) = [1.0 * twist_linear m ! 0, twist_angular m ! 2]"
  "imuMeasure (wheelOdometryHandler cfg m s) = imuMeasure s"
  "E_imu (wheelOdometryHandler cfg m s) = E_imu s"
  by (cases "wheelActivated s"; simp add: wheelOdometryHandler_def Let_def)+

lemma imuHandler_wheel:
  "wheelMeasure (imuHandler g cfg m s) = wheelMeasure s"
  by (cases "imuActivated s"; simp add: imuHandler_def Let_def)+

lemma initial_measurements:
  "imuMeasure (initialization s) = [0, 0, 0, 0, 0, 0, 0, 0, 0]"
  "E_imu (initialization s) =
     [[0, 0, 0, 0, 0, 0, 0, 0, 0], [0, 0, 0, 0, 0, 0, 0, 0, 0], [0, 0, 0, 0, 0, 0, 0, 0, 0],
      [0, 0, 0, 0, 0, 0, 0, 0, 0], [0, 0, 0, 0, 0, 0, 0, 0, 0], [0, 0, 0, 0, 0, 0, 0, 0, 0],
      [0, 0, 0, 0, 0, 0, 0, 0, 0], [0, 0, 0, 0, 0, 0, 0, 0, 0], [0, 0, 0, 0, 0, 0, 0, 0, 0]]"
  "E_wheel (initialization s) = [[0, 0], [0, 0]]"
  "wheelMeasure (initialization s) = [0, 0]"
  "lidarMeasure (initialization s) = [0, 0, 0, 0, 0, 0]"
  "lidarMeasureL (initialization s) = [0, 0, 0, 0, 0, 0]"
  "E_lidar (initialization s) = zero_mat 6 6"
  "E_lidarL (initialization s) = zero_mat 6 6"
  by (simp_all add: initialization_def zero_vec_def zero_mat_def N_IMU_def N_WHEEL_def N_LIDAR_def
      numeral_eq_Suc)

lemma upt_0_9: "[0..<9] = [0, 1, 2, 3, 4, 5, 6, 7, 8]"
  by code_simp

lemma upt_Suc_0: "[Suc 0..<2] = [1]" "[Suc 0..<6] = [1, 2, 3, 4, 5]"
  by code_simp+

lemma H_imu_explicit:
  "H_imu = [[0, 0, 0, 1, 0, 0, 0, 0, 0, 0, 0, 0],
            [0, 0, 0, 0, 1, 0, 0, 0, 0, 0, 0, 0],
            [0, 0, 0, 0, 0, 1, 0, 0, 0, 0, 0, 0]]"
  by (simp add: H_imu_def identity_mat_def zero_mat_def N_STATES_def set_mat_block_def
      set_vec_block_def upts numeral_eq_Suc)

lemma H_wheel_explicit:
  "H_wheel = [[0, 0, 0, 0, 0, 0, 1, 0, 0, 0, 0, 0],
              [0, 0, 0, 0, 0, 0, 0, 0, 0, 0, 0, 1]]"
  by (simp add: H_wheel_def zero_mat_def N_STATES_def N_WHEEL_def set_coeff_def numeral_eq_Suc)

lemma H_lidar_explicit:
  "H_lidar = [[0, 0, 0, 0, 0, 0, 1, 0, 0, 0, 0, 0],
              [0, 0, 0, 0, 0, 0, 0, 1, 0, 0, 0, 0],
              [0, 0, 0, 0, 0, 0, 0, 0, 1, 0, 0, 0],
              [0, 0, 0, 0, 0, 0, 0, 0, 0, 1, 0, 0],
              [0, 0, 0, 0, 0, 0, 0, 0, 0, 0, 1, 0],
              [0, 0, 0, 0, 0, 0, 0, 0, 0, 0, 0, 1]]"
  by (simp add: H_lidar_def identity_mat_def zero_mat_def N_STATES_def N_LIDAR_def set_mat_block_def
      set_vec_block_def upts numeral_eq_Suc)

lemmas matrix_eval = mat_mul_def mat_vec_def mat_transpose_def mat_col_def dot_def
  mat_add_def vec_add_def

lemmas inverse_dyn_eval = inverse_dyn_def identity_mat_def pivot_index_def swap_rows_def
  eliminate_def vec_sub_def vec_scale_def Let_def upts upt_Suc_0

lemma P_half_explicit:
  "P_half =
    [[1 / 2, 0, 0, 0, 0, 0, 0, 0, 0, 0, 0, 0],
     [0, 1 / 2, 0, 0, 0, 0, 0, 0, 0, 0, 0, 0],
     [0, 0, 1 / 2, 0, 0, 0, 0, 0, 0, 0, 0, 0],
     [0, 0, 0, 1 / 2, 0, 0, 0, 0, 0, 0, 0, 0],
     [0, 0, 0, 0, 1 / 2, 0, 0, 0, 0, 0, 0, 0],
     [0, 0, 0, 0, 0, 1 / 2, 0, 0, 0, 0, 0, 0],
     [0, 0, 0, 0, 0, 0, 1 / 2, 0, 0, 0, 0, 0],
     [0, 0, 0, 0, 0, 0, 0, 1 / 2, 0, 0, 0, 0],
     [0, 0, 0, 0, 0, 0, 0, 0, 1 / 2, 0, 0, 0],
     [0, 0, 0, 0, 0, 0, 0, 0, 0, 1 / 2, 0, 0],
     [0, 0, 0, 0, 0, 0, 0, 0, 0, 0, 1 / 2, 0],
     [0, 0, 0, 0, 0, 0, 0, 0, 0, 0, 0, 1 / 2]]"
  by (simp add: P_half_def identity_mat_def mat_scale_def N_STATES_def upts)

lemma length_P_half: "length P_half = 12"
  by (simp add: P_half_explicit)

lemma half_filter_fields:
  "X half_filter = Some [0, 0, 0, 0, 0, 0, 0, 0, 0, 0, 0, 0]"
  "P half_filter = Some P_half"
  "imuMeasure half_filter = [0, 0, 0, 0, 0, 0, 0, 0, 0]"
  "E_imu half_filter =
     [[0, 0, 0, 0, 0, 0, 0, 0, 0], [0, 0, 0, 0, 0, 0, 0, 0, 0], [0, 0, 0, 0, 0, 0, 0, 0, 0],
      [0, 0, 0, 0, 0, 0, 0, 0, 0], [0, 0, 0, 0, 0, 0, 0, 0, 0], [0, 0, 0, 0, 0, 0, 0, 0, 0],
      [0, 0, 0, 0, 0, 0, 0, 0, 0], [0, 0, 0, 0, 0, 0, 0, 0, 0], [0, 0, 0, 0, 0, 0, 0, 0, 0]]"
  "E_wheel half_filter = [[0, 0], [0, 0]]"
  "wheelMeasure half_filter = [0, 0]"
  by (simp_all add: half_filter_def initial_state initial_measurements)

lemma half_gains: "imuG half_gain_config = 1 / 2" "wheelG half_gain_config = 1 / 2"
  by (simp_all add: half_gain_config_def)

lemma no_orientation_XP:
  "X no_orientation_state = Some [0, 0, 0, 0, 0, 0, 0, 0, 0, 0, 0, 0]"
  "P no_orientation_state = Some P_half"
  by (simp_all add: no_orientation_state_def handler_XP half_filter_fields)

lemma no_orientation_S_imu:
  "S_imu no_orientation_state = Some [[0, 0, 0], [0, 1 / 2, 0], [0, 0, 1 / 2]]"
  by (simp add: S_imu_def no_orientation_state_def handler_XP half_filter_fields imuHandler_measure
      Let_def imu_without_orientation_def sample_imu_def half_gains
      matrix3_of_def set_mat_block_def set_vec_block_def mat_block_def vec_block_def mat_scale_def
      upt_0_9 upts H_imu_explicit P_half_explicit matrix_eval)

lemma no_orientation_singular: "imu_innovation_singular no_orientation_state"
  by (simp add: imu_innovation_singular_def no_orientation_S_imu inverse3_def det3_def)

lemma no_orientation_measure:
  "vec_block 6 3 (imuMeasure no_orientation_state) = [0, 0, 0]"
  by (simp add: no_orientation_state_def imuHandler_measure half_filter_fields level_RPY_def
      imu_without_orientation_def sample_imu_def set_vec_block_def vec_block_def)

lemma sampled_XP:
  "X sampled_state = Some [0, 0, 0, 0, 0, 0, 0, 0, 0, 0, 0, 0]"
  "P sampled_state = Some P_half"
  by (simp_all add: sampled_state_def handler_XP half_filter_fields)

lemma sampled_S_wheel: "S_wheel sampled_state = Some [[1, 0], [0, 201 / 2]]"
  by (simp add: S_wheel_def sampled_state_def handler_XP half_filter_fields handler_fields
      sample_wheel_def half_gains set_coeff_def
      H_wheel_explicit P_half_explicit matrix_eval)

lemma sampled_wheel_invertible: "wheel_innovation_invertible sampled_state"
  by (simp add: wheel_innovation_invertible_def sampled_S_wheel inverse_dyn_eval)

lemma sampled_S_imu: "S_imu sampled_state = Some [[1, 0, 0], [0, 1, 0], [0, 0, 1]]"
  by (simp add: S_imu_def sampled_state_def handler_XP half_filter_fields imuHandler_measure
      wheelHandler_measure Let_def sample_imu_def half_gains
      matrix3_of_def set_mat_block_def set_vec_block_def mat_block_def vec_block_def mat_scale_def
      upt_0_9 upts H_imu_explicit P_half_explicit matrix_eval)

lemma sampled_imu_invertible: "imu_innovation_invertible sampled_state"
  by (simp add: imu_innovation_invertible_def sampled_S_imu inverse3_def det3_def)

lemma sampled_measure:
  "wheelMeasure sampled_state = [0, 0]"
  "vec_block 6 3 (imuMeasure sampled_state) = [0, 0, 0]"
  by (simp_all add: sampled_state_def imuHandler_measure imuHandler_wheel wheelHandler_measure
      half_filter_fields level_RPY_def sample_wheel_def
      sample_imu_def set_vec_block_def vec_block_def)

lemma certain_fields:
  "P certain_filter = Some (zero_mat 12 12)"
  "X certain_filter = Some [0, 0, 0, 0, 0, 0, 0, 0, 0, 0, 0, 0]"
  "E_wheel certain_filter = [[0, 0], [0, 0]]"
  "lidarMeasure certain_filter = [0, 0, 0, 0, 0, 0]"
  "lidarMeasureL certain_filter = [0, 0, 0, 0, 0, 0]"
  "E_lidar certain_filter = zero_mat 6 6"
  "E_lidarL certain_filter = zero_mat 6 6"
  by (simp_all add: certain_filter_def initial_measurements initial_state N_STATES_def)

lemma certain_wheel_singular: "wheel_innovation_singular certain_filter"
  by (simp add: wheel_innovation_singular_def S_wheel_def certain_fields zero_mat_12_12
      H_wheel_explicit matrix_eval inverse_dyn_eval)

lemma certain_Q_lidar: "Q_lidar (1 / 10) certain_filter = Some (zero_mat 6 6)"
proof -
  have c: "cos ([0, 0, 0, 0, 0, 0] ! 4 :: real) \<noteq> 0"
    by simp
  have d: "\<forall>i<6. cos (([0, 0, 0, 0, 0, 0 :: real][i := [0, 0, 0, 0, 0, 0] ! i + 0.0000001]) ! 4) \<noteq> 0"
    by (auto simp: less_Suc_eq numeral_eq_Suc cos_small_nonzero)
  have t: "(1 / 10 :: real) \<noteq> 0"
    by simp
  from jacobian_lidar_measurement_defined [OF c t, of "[0, 0, 0, 0, 0, 0]"]
  obtain G where G: "jacobian_lidar_measurement [0, 0, 0, 0, 0, 0] [0, 0, 0, 0, 0, 0] (1 / 10) = Some G"
    "mat_dims 6 6 G"
    by auto
  from jacobian_lidar_measurementL_defined [OF d c t, of "[0, 0, 0, 0, 0, 0]"]
  obtain Gl where Gl: "jacobian_lidar_measurementL [0, 0, 0, 0, 0, 0] [0, 0, 0, 0, 0, 0] (1 / 10) = Some Gl"
    "mat_dims 6 6 Gl"
    by auto
  have "mat_add (zero_mat 6 6) (zero_mat 6 6) = zero_mat 6 6"
    by (simp add: zero_mat_6_6 mat_add_def vec_add_def)
  then show ?thesis
    by (simp add: Q_lidar_def certain_fields G Gl mat_mul_zero_middle)
qed

lemma certain_lidar_singular: "lidar_innovation_singular (1 / 10) certain_filter"
  by (simp add: lidar_innovation_singular_def S_lidar_def certain_Q_lidar certain_fields)
     (simp add: zero_mat_12_12 zero_mat_6_6 H_lidar_explicit matrix_eval inverse_dyn_eval)

section \<open>The prediction model\<close>

lemma f_prediction_model_closed:
  "length x = 12 \<Longrightarrow>
   f_prediction_model x dt =
     (if cos (x ! 4) = 0 then None
      else Some (vec_add (take 6 x)
                   (vec_scale (mat_vec (A_spec (x ! 3) (x ! 4) (x ! 5)) (drop 6 x)) dt) @ drop 6 x))"
proof -
  assume "length x = 12"
  from length_12_list [OF this]
  obtain a0 a1 a2 a3 a4 a5 a6 a7 a8 a9 a10 a11
    where x: "x = [a0, a1, a2, a3, a4, a5, a6, a7, a8, a9, a10, a11]"
    by (elim exE)
  show ?thesis
    unfolding x
    apply (simp add: f_prediction_model_def euler_rate_jacobian_def Let_def A_spec_def
        AngleAxis_UnitX_def AngleAxis_UnitY_def AngleAxis_UnitZ_def mat_mul_def mat_vec_def
        mat_transpose_def mat_col_def dot_def set_mat_block_def set_vec_block_def identity_mat_def
        vec_add_def vec_scale_def vec_block_def zero_vec_def N_STATES_def upts)
    apply (simp add: algebra_simps)
    done
qed

text \<open>
  C1. For every state \<open>x\<close> of 12 components and every \<open>dt\<close>, the prediction model
  returns the pose block \<open>pose + A(angles) \<cdot> velocity \<cdot> dt\<close> followed by the velocity
  block unchanged, where \<open>A\<close> holds \<open>Rz(yaw) Ry(pitch) Rx(roll)\<close> on the position block
  and the Euler-rate matrix on the angle block. Where the cosine of the pitch is zero the
  Euler-rate matrix has no value, and neither has the result.
\<close>

theorem f_prediction_model_pose_velocity:
  "length x = 12 \<Longrightarrow>
   f_prediction_model x dt =
     (if cos (x ! 4) = 0 then None
      else Some (vec_add (take 6 x)
                   (vec_scale (mat_vec (A_spec (x ! 3) (x ! 4) (x ! 5)) (drop 6 x)) dt) @ drop 6 x))"
  by (rule f_prediction_model_closed)

theorem f_prediction_model_pose_velocity_witness:
  "length [1, 2, 3, 0, 0, 0, 1, 2, 3, 4, 5, 6 :: real] = 12 \<and>
   f_prediction_model [1, 2, 3, 0, 0, 0, 1, 2, 3, 4, 5, 6] 2 =
     Some [3, 6, 9, 8, 10, 12, 1, 2, 3, 4, 5, 6]"
  using f_prediction_model_pose_velocity [of "[1, 2, 3, 0, 0, 0, 1, 2, 3, 4, 5, 6]" 2]
  by (simp add: A_spec_def mat_vec_def dot_def vec_scale_def vec_add_def)

section \<open>The adaptive covariance model\<close>

lemma adaptive_covariance_diag:
  "adaptive_covariance cfg fCorner fSurf =
     diag6 [spec_scale nCorner fCorner * Gx * lidarG cfg,
            spec_scale nCorner fCorner * Gy * lidarG cfg,
            spec_scale nSurf fSurf * Gz * lidarG cfg,
            spec_scale nSurf fSurf * Gphi * lidarG cfg,
            spec_scale nSurf fSurf * Gtheta * lidarG cfg,
            spec_scale nCorner fCorner * Gpsi * lidarG cfg]"
  by (simp add: adaptive_covariance_def Let_def zero_mat_6_6 set_coeff_def diag6_def spec_scale_def)

lemma spec_scale_antimono: "0 < N \<Longrightarrow> f \<le> f' \<Longrightarrow> spec_scale N f' \<le> spec_scale N f"
  by (simp add: spec_scale_def divide_right_mono)

lemma spec_scale_full: "spec_scale N N = l_min"
  by (simp add: spec_scale_def)

lemma spec_scale_empty: "0 < N \<Longrightarrow> spec_scale N 0 = 1 + l_min"
  by (simp add: spec_scale_def)

lemma spec_scale_lower: "0 < N \<Longrightarrow> l_min \<le> spec_scale N f"
  by (simp add: spec_scale_def)

lemma spec_scale_upper: "0 < N \<Longrightarrow> 0 \<le> f \<Longrightarrow> spec_scale N f \<le> 1 + l_min"
  using spec_scale_antimono [of N 0 f] by (simp add: spec_scale_empty)

lemma gains_nonneg:
  "0 \<le> Gx" "0 \<le> Gy" "0 \<le> Gz" "0 \<le> Gphi" "0 \<le> Gtheta" "0 \<le> Gpsi" "0 < nCorner" "0 < nSurf"
  by (simp_all add: Gx_def Gy_def Gz_def Gphi_def Gtheta_def Gpsi_def nCorner_def nSurf_def)

lemma scaled_entry_mono:
  fixes a b G g :: real
  shows "a \<le> b \<Longrightarrow> 0 \<le> G \<Longrightarrow> 0 \<le> g \<Longrightarrow> a * G * g \<le> b * G * g"
  by (simp add: mult_right_mono)

lemma less_6_cases: "i < 6 \<Longrightarrow> i = 0 \<or> i = 1 \<or> i = 2 \<or> i = 3 \<or> i = 4 \<or> i = (5::nat)"
  by arith

lemma diag6_entry_le:
  assumes "i < 6" and "length d = 6" and "length e = 6" and "\<And>k. k < 6 \<Longrightarrow> d ! k \<le> e ! k"
  shows "diag6 d ! i ! i \<le> diag6 e ! i ! i"
  using less_6_cases [OF assms(1)] assms(4) by (auto simp: diag6_def)

text \<open>
  C2 (amended). For all feature counts the adaptive covariance is the diagonal matrix of
  scale \<open>\<times>\<close> per-axis gain \<open>\<times>\<close> global range gain, with the corner scale on the x, y and
  yaw axes and the surface scale on the z, roll and pitch axes; at full feature counts
  every entry is floor \<open>\<times>\<close> gain, at zero feature counts (1 + floor) \<open>\<times>\<close> gain. When the
  global range gain is not negative and \<open>0 \<le> fCorner \<le> fCorner'\<close>, \<open>0 \<le> fSurf \<le> fSurf'\<close>,
  every diagonal entry lies between its value at full counts and its value at zero
  counts, and does not increase from the smaller counts to the larger ones.
\<close>

theorem adaptive_covariance_amended:
  "adaptive_covariance cfg fCorner fSurf =
     diag6 [spec_scale nCorner fCorner * Gx * lidarG cfg,
            spec_scale nCorner fCorner * Gy * lidarG cfg,
            spec_scale nSurf fSurf * Gz * lidarG cfg,
            spec_scale nSurf fSurf * Gphi * lidarG cfg,
            spec_scale nSurf fSurf * Gtheta * lidarG cfg,
            spec_scale nCorner fCorner * Gpsi * lidarG cfg] \<and>
   adaptive_covariance cfg nCorner nSurf =
     diag6 [l_min * Gx * lidarG cfg, l_min * Gy * lidarG cfg, l_min * Gz * lidarG cfg,
            l_min * Gphi * lidarG cfg, l_min * Gtheta * lidarG cfg, l_min * Gpsi * lidarG cfg] \<and>
   adaptive_covariance cfg 0 0 =
     diag6 [(1 + l_min) * Gx * lidarG cfg, (1 + l_min) * Gy * lidarG cfg,
            (1 + l_min) * Gz * lidarG cfg, (1 + l_min) * Gphi * lidarG cfg,
            (1 + l_min) * Gtheta * lidarG cfg, (1 + l_min) * Gpsi * lidarG cfg] \<and>
   (0 \<le> lidarG cfg \<and> 0 \<le> fCorner \<and> fCorner \<le> fCorner' \<and> 0 \<le> fSurf \<and> fSurf \<le> fSurf' \<longrightarrow>
    (\<forall>i<6. adaptive_covariance cfg nCorner nSurf ! i ! i \<le> adaptive_covariance cfg fCorner' fSurf' ! i ! i \<and>
           adaptive_covariance cfg fCorner' fSurf' ! i ! i \<le> adaptive_covariance cfg fCorner fSurf ! i ! i \<and>
           adaptive_covariance cfg fCorner fSurf ! i ! i \<le> adaptive_covariance cfg 0 0 ! i ! i))"
proof -
  note pos = gains_nonneg
  have full: "adaptive_covariance cfg nCorner nSurf =
     diag6 [l_min * Gx * lidarG cfg, l_min * Gy * lidarG cfg, l_min * Gz * lidarG cfg,
            l_min * Gphi * lidarG cfg, l_min * Gtheta * lidarG cfg, l_min * Gpsi * lidarG cfg]"
    by (simp only: adaptive_covariance_diag spec_scale_full)
  have empty: "adaptive_covariance cfg 0 0 =
     diag6 [(1 + l_min) * Gx * lidarG cfg, (1 + l_min) * Gy * lidarG cfg,
            (1 + l_min) * Gz * lidarG cfg, (1 + l_min) * Gphi * lidarG cfg,
            (1 + l_min) * Gtheta * lidarG cfg, (1 + l_min) * Gpsi * lidarG cfg]"
    by (simp only: adaptive_covariance_diag spec_scale_empty [OF pos(7)] spec_scale_empty [OF pos(8)])
  have order: "adaptive_covariance cfg nCorner nSurf ! i ! i \<le> adaptive_covariance cfg fCorner' fSurf' ! i ! i \<and>
          adaptive_covariance cfg fCorner' fSurf' ! i ! i \<le> adaptive_covariance cfg fCorner fSurf ! i ! i \<and>
          adaptive_covariance cfg fCorner fSurf ! i ! i \<le> adaptive_covariance cfg 0 0 ! i ! i"
    if g: "0 \<le> lidarG cfg" and c: "0 \<le> fCorner" "fCorner \<le> fCorner'"
      and f: "0 \<le> fSurf" "fSurf \<le> fSurf'" and i: "i < 6" for i
  proof (intro conjI)
    show "adaptive_covariance cfg nCorner nSurf ! i ! i \<le> adaptive_covariance cfg fCorner' fSurf' ! i ! i"
      unfolding adaptive_covariance_diag
      using less_6_cases [OF i] g pos
      by (intro diag6_entry_le i)
         (auto simp: less_Suc_eq numeral_eq_Suc nth_Cons' spec_scale_full
               intro!: scaled_entry_mono spec_scale_lower [of nCorner fCorner', unfolded spec_scale_full]
                       spec_scale_lower [of nCorner fCorner'] spec_scale_lower [of nSurf fSurf'])
    show "adaptive_covariance cfg fCorner' fSurf' ! i ! i \<le> adaptive_covariance cfg fCorner fSurf ! i ! i"
      unfolding adaptive_covariance_diag
      using less_6_cases [OF i] g pos c f
      by (intro diag6_entry_le i)
         (auto simp: less_Suc_eq numeral_eq_Suc nth_Cons' intro!: scaled_entry_mono spec_scale_antimono)
    show "adaptive_covariance cfg fCorner fSurf ! i ! i \<le> adaptive_covariance cfg 0 0 ! i ! i"
      unfolding adaptive_covariance_diag
      using less_6_cases [OF i] g pos c f
      by (intro diag6_entry_le i)
         (auto simp: less_Suc_eq numeral_eq_Suc nth_Cons' spec_scale_empty
               intro!: scaled_entry_mono spec_scale_upper [of nCorner fCorner, unfolded spec_scale_empty]
                  spec_scale_upper)
  qed
  show ?thesis
    using full empty order by (simp only: adaptive_covariance_diag simp_thms) blast
qed

theorem adaptive_covariance_amended_witness:
  "0 \<le> lidarG default_config \<and> (0::real) \<le> 100 \<and> (100::real) \<le> 200 \<and> (0::real) \<le> 1000 \<and>
   (1000::real) \<le> 2000 \<and>
   adaptive_covariance default_config nCorner nSurf = diag6 [0.011, 0.008, 0.024, 0.026, 0.025, 0.022] \<and>
   adaptive_covariance default_config 0 0 = diag6 [2.211, 1.608, 4.824, 5.226, 5.025, 4.422] \<and>
   adaptive_covariance default_config nCorner nSurf ! 0 ! 0 \<le> adaptive_covariance default_config 200 2000 ! 0 ! 0 \<and>
   adaptive_covariance default_config 200 2000 ! 0 ! 0 \<le> adaptive_covariance default_config 100 1000 ! 0 ! 0 \<and>
   adaptive_covariance default_config 100 1000 ! 0 ! 0 \<le> adaptive_covariance default_config 0 0 ! 0 ! 0"
proof -
  have g: "0 \<le> lidarG default_config"
    by (simp add: default_config_def)
  have h: "(0::real) \<le> 100" "(100::real) \<le> 200" "(0::real) \<le> 1000" "(1000::real) \<le> 2000"
    by simp_all
  note t = adaptive_covariance_amended [of default_config 100 1000 200 2000]
  note full = t [THEN conjunct2, THEN conjunct1]
  note empty = t [THEN conjunct2, THEN conjunct2, THEN conjunct1]
  have i: "(0::nat) < 6"
    by simp
  from t g h i
  have order: "adaptive_covariance default_config nCorner nSurf ! 0 ! 0 \<le> adaptive_covariance default_config 200 2000 ! 0 ! 0 \<and>
      adaptive_covariance default_config 200 2000 ! 0 ! 0 \<le> adaptive_covariance default_config 100 1000 ! 0 ! 0 \<and>
      adaptive_covariance default_config 100 1000 ! 0 ! 0 \<le> adaptive_covariance default_config 0 0 ! 0 ! 0"
    by blast
  have full': "adaptive_covariance default_config nCorner nSurf =
          diag6 [0.011, 0.008, 0.024, 0.026, 0.025, 0.022]"
    unfolding full
    by (simp add: default_config_def l_min_def Gx_def Gy_def Gz_def Gphi_def Gtheta_def Gpsi_def)
  have empty': "adaptive_covariance default_config 0 0 =
          diag6 [2.211, 1.608, 4.824, 5.226, 5.025, 4.422]"
    unfolding empty
    by (simp add: default_config_def l_min_def Gx_def Gy_def Gz_def Gphi_def Gtheta_def Gpsi_def)
  from g h full' empty' order show ?thesis
    by (intro conjI) blast+
qed

text \<open>
  C2 as stated fails for a negative range gain: with \<open>lidarG = -1\<close> the x entry at zero
  feature counts, \<open>-0.002211\<close>, is below the entry at full feature counts, \<open>-0.000011\<close>,
  so the entry at full counts is not the minimum and the entry grows with the count.
\<close>

theorem adaptive_covariance_negative_gain:
  "adaptive_covariance (default_config\<lparr>lidarG := - 1\<rparr>) 0 0 ! 0 ! 0
     < adaptive_covariance (default_config\<lparr>lidarG := - 1\<rparr>) nCorner nSurf ! 0 ! 0"
  by (simp add: adaptive_covariance_diag diag6_def spec_scale_def default_config_def
      nCorner_def nSurf_def l_min_def Gx_def)

section \<open>The indirect range measurement\<close>

lemma atan2_0_1: "atan2 0 1 = 0"
  by (simp add: atan2_def)

lemma angle_difference_self: "angle_difference a a = 0"
  by (simp add: angle_difference_def atan2_0_1)

lemma replicate_6_zero: "replicate 6 (0::real) = [0, 0, 0, 0, 0, 0]"
  by (simp add: numeral_eq_Suc)

text \<open>
  C3. For every pose \<open>u\<close> and previous pose \<open>ul\<close> at whose angles the Euler-rate matrix
  is invertible, and every \<open>dt > 0\<close>: if \<open>u = ul\<close>, the indirect range measurement is the
  zero vector of six components.
\<close>

theorem indirect_lidar_measurement_same_pose:
  assumes "length u = 6" and "u = ul" and "euler_rate_invertible (ul ! 3) (ul ! 4)" and "0 < dt"
  shows "indirect_lidar_measurement u ul dt = Some [0, 0, 0, 0, 0, 0]"
proof -
  from assms(3) obtain J Ji
    where J: "euler_rate_jacobian (ul ! 3) (ul ! 4) = Some J" and Ji: "inverse3 J = Some Ji"
    by (auto simp: euler_rate_invertible_def split: option.splits)
  from length_6_list [OF assms(1)] obtain a0 a1 a2 a3 a4 a5 where u: "u = [a0, a1, a2, a3, a4, a5]"
    by (elim exE)
  have d: "(set_vec_block 0 (vec_sub (vec_block 0 3 u) (vec_block 0 3 u)) (zero_vec N_LIDAR))
      [3 := angle_difference (u ! 3) (u ! 3), 4 := angle_difference (u ! 4) (u ! 4),
       5 := angle_difference (u ! 5) (u ! 5)] = replicate 6 0"
    unfolding u
    by (simp add: angle_difference_self set_vec_block_def vec_sub_def vec_block_def
        zero_vec_def N_LIDAR_def numeral_eq_Suc)
  have mv: "mat_vec (set_mat_block 3 3 Ji (set_mat_block 0 0 R (zero_mat N_LIDAR N_LIDAR)))
              (replicate 6 0) = replicate 6 0" for R
    by (simp add: mat_vec_zero length_set_mat_block zero_mat_def N_LIDAR_def)
  show ?thesis
    using assms(4) J Ji
    by (simp add: indirect_lidar_measurement_def Let_def assms(2)[symmetric] d mv vec_div_def)
       (simp add: replicate_6_zero)
qed

theorem indirect_lidar_measurement_same_pose_witness:
  "length [1, 2, 3, 0, 0, 0 :: real] = 6 \<and> euler_rate_invertible 0 0 \<and> (0::real) < 0.1 \<and>
   indirect_lidar_measurement [1, 2, 3, 0, 0, 0] [1, 2, 3, 0, 0, 0] 0.1 = Some [0, 0, 0, 0, 0, 0]"
proof -
  have l: "length [1, 2, 3, 0, 0, 0 :: real] = 6"
    by simp
  have e: "euler_rate_invertible ([1, 2, 3, 0, 0, 0] ! 3) ([1, 2, 3, 0, 0, 0] ! 4)"
    by (simp add: euler_rate_invertible_def euler_rate_jacobian_def inverse3_def det3_def)
  have p: "(0::real) < 0.1"
    by simp
  from indirect_lidar_measurement_same_pose [OF l refl e p] e p show ?thesis
    by simp
qed

section \<open>Corrections whose innovation covariance cannot be inverted\<close>

text \<open>
  C4 (amended). No correction tests its innovation covariance \<open>S\<close>. Whenever \<open>S\<close> has a
  value and its inversion fails, the inertial, the wheel and the range correction each
  overwrite \<open>X\<close> and \<open>P\<close> with non-finite values instead of leaving them as predicted,
  and report nothing: the inertial and the wheel correction publish no message, the
  range correction publishes the indirect measurement that it publishes on every call.
\<close>

theorem singular_innovation_not_skipped:
  "(imu_innovation_singular s \<longrightarrow>
      X (correction_imu_stage dt s) = None \<and> P (correction_imu_stage dt s) = None \<and>
      published (correction_imu_stage dt s) = published s) \<and>
   (wheel_innovation_singular s \<longrightarrow>
      X (correction_wheel_stage dt s) = None \<and> P (correction_wheel_stage dt s) = None \<and>
      published (correction_wheel_stage dt s) = published s) \<and>
   (lidar_innovation_singular dt s \<longrightarrow>
      X (correction_lidar_stage dt s) = None \<and> P (correction_lidar_stage dt s) = None \<and>
      published (correction_lidar_stage dt s) =
        published s @ [IndirectLidarMeasurement (Y_lidar dt s) (Q_lidar dt s)])"
  using singular_imu [of s dt] singular_wheel [of s dt] singular_lidar [of dt s] by blast

theorem singular_innovation_not_skipped_witness:
  "imu_innovation_singular no_orientation_state \<and>
   X (correction_imu_stage (1 / 100) no_orientation_state) = None \<and>
   P (correction_imu_stage (1 / 100) no_orientation_state) = None \<and>
   published (correction_imu_stage (1 / 100) no_orientation_state) = published no_orientation_state \<and>
   wheel_innovation_singular certain_filter \<and>
   X (correction_wheel_stage (1 / 10) certain_filter) = None \<and>
   P (correction_wheel_stage (1 / 10) certain_filter) = None \<and>
   published (correction_wheel_stage (1 / 10) certain_filter) = published certain_filter \<and>
   lidar_innovation_singular (1 / 10) certain_filter \<and>
   X (correction_lidar_stage (1 / 10) certain_filter) = None \<and>
   P (correction_lidar_stage (1 / 10) certain_filter) = None"
  using singular_innovation_not_skipped [of no_orientation_state "1 / 100"]
    singular_innovation_not_skipped [of certain_filter "1 / 10"]
    no_orientation_singular certain_wheel_singular certain_lidar_singular
  by blast

text \<open>
  C4 as stated fails in the filter with zero state, covariance \<open>0.5 I\<close> and inertial gain
  0.5, after an inertial message that marks its orientation as missing (orientation
  covariance entry 0 equal to \<open>-1\<close>, the others 0): \<open>S\<close> is the diagonal matrix of
  \<open>0.5 - 0.5 = 0\<close>, 0.5 and 0.5, with every number held exactly in binary, its inversion
  fails, and the inertial correction does not leave \<open>X\<close> and \<open>P\<close> as they were.
\<close>

theorem singular_inertial_correction_corrupts_state:
  "imuG half_gain_config = 1 / 2 \<and> P no_orientation_state = Some P_half \<and>
   S_imu no_orientation_state = Some [[0, 0, 0], [0, 1 / 2, 0], [0, 0, 1 / 2]] \<and>
   imu_innovation_singular no_orientation_state \<and>
   X (correction_imu_stage (1 / 100) no_orientation_state) \<noteq> X no_orientation_state \<and>
   P (correction_imu_stage (1 / 100) no_orientation_state) \<noteq> P no_orientation_state"
  using singular_imu [OF no_orientation_singular, of "1 / 100"] no_orientation_singular
  by (simp add: no_orientation_XP no_orientation_S_imu half_gains)

section \<open>Prediction over no elapsed time\<close>

lemma f_prediction_model_dt0:
  assumes "length x = 12" "cos (x ! 4) \<noteq> 0"
  shows "f_prediction_model x 0 = Some x"
proof -
  have "vec_add (take 6 x) (vec_scale (mat_vec (A_spec (x ! 3) (x ! 4) (x ! 5)) (drop 6 x)) 0) = take 6 x"
    using assms(1) by (intro vec_add_zero_right) (simp_all add: vec_scale_def mat_vec_def A_spec_def)
  then show ?thesis
    using assms by (simp add: f_prediction_model_closed)
qed

lemma F_dt0_explicit:
  "F_dt0 =
    [[1, 0, 0, 0, 0, 0, 0, 0, 0, 0, 0, 0],
     [0, 1, 0, 0, 0, 0, 0, 0, 0, 0, 0, 0],
     [0, 0, 1, 0, 0, 0, 0, 0, 0, 0, 0, 0],
     [0, 0, 0, sin 0.0001 / 0.0001, 0, 0, 0, 0, 0, 0, 0, 0],
     [0, 0, 0, 0, sin 0.0001 / 0.0001, 0, 0, 0, 0, 0, 0, 0],
     [0, 0, 0, 0, 0, sin 0.0001 / 0.0001, 0, 0, 0, 0, 0, 0],
     [0, 0, 0, 0, 0, 0, 1, 0, 0, 0, 0, 0],
     [0, 0, 0, 0, 0, 0, 0, 1, 0, 0, 0, 0],
     [0, 0, 0, 0, 0, 0, 0, 0, 1, 0, 0, 0],
     [0, 0, 0, 0, 0, 0, 0, 0, 0, 1, 0, 0],
     [0, 0, 0, 0, 0, 0, 0, 0, 0, 0, 1, 0],
     [0, 0, 0, 0, 0, 0, 0, 0, 0, 0, 0, 1]]"
  by (simp add: F_dt0_def identity_mat_def N_STATES_def upts set_coeff_def)

lemma jacobian_state_dt0:
  assumes "length x = 12" "cos (x ! 4) \<noteq> 0" "cos (x ! 4 + 0.0001) \<noteq> 0"
  shows "jacobian_state x 0 = Some F_dt0"
proof -
  from length_12_list [OF assms(1)]
  obtain a0 a1 a2 a3 a4 a5 a6 a7 a8 a9 a10 a11
    where x: "x = [a0, a1, a2, a3, a4, a5, a6, a7, a8, a9, a10, a11]"
    by (elim exE)
  have c: "cos a4 \<noteq> 0" "cos (a4 + 1 / 10000) \<noteq> 0"
    using assms(2,3) by (simp_all add: x)
  show ?thesis
    unfolding x jacobian_state_def
    using c
    apply (simp add: f_prediction_model_dt0 N_STATES_def upts Let_def)
    apply (simp add: zero_mat_12_12 set_mat_block_def set_vec_block_def set_coeff_def vec_sub_def
        upts F_dt0_explicit)
    done
qed

lemma prediction_stage_dt0:
  assumes "X s = Some x" "length x = 12" "cos (x ! 4) \<noteq> 0" "cos (x ! 4 + 0.0001) \<noteq> 0"
    and "P s = Some p"
  shows "prediction_stage 0 s =
           s\<lparr>X := Some x,
             P := Some (mat_add (mat_mul (mat_mul F_dt0 p) (mat_transpose F_dt0)) (E_pred s))\<rparr>"
  using assms
  by (simp add: prediction_stage_def Let_def jacobian_state_dt0 f_prediction_model_dt0)

lemma F_dt0_product:
  assumes "mat_dims 12 12 p"
  shows "mat_mul (mat_mul F_dt0 p) (mat_transpose F_dt0) = angle_rows_scaled p"
proof -
  from assms have l: "length p = 12" and r: "\<And>k. k < 12 \<Longrightarrow> length (p ! k) = 12"
    by (simp_all add: mat_dims_def)
  from length_12_list [OF l] obtain r0 r1 r2 r3 r4 r5 r6 r7 r8 r9 r10 r11
    where p: "p = [r0, r1, r2, r3, r4, r5, r6, r7, r8, r9, r10, r11]"
    by (elim exE)
  have len: "length r0 = 12"
    using r [of 0] by (simp add: p)
  show ?thesis
    unfolding p
    by (simp add: F_dt0_explicit angle_rows_scaled_def matrix_eval upts len)
qed

lemma P_initial_dims: "mat_dims 12 12 P_initial"
  by (simp add: mat_dims_def P_initial_explicit)

lemma initial_prediction_dt0:
  "P (prediction_stage 0 (initialization s)) =
     Some [[1 / 10, 0, 0, 0, 0, 0, 0, 0, 0, 0, 0, 0],
           [0, 1 / 10, 0, 0, 0, 0, 0, 0, 0, 0, 0, 0],
           [0, 0, 1 / 10, 0, 0, 0, 0, 0, 0, 0, 0, 0],
           [0, 0, 0, 10000000 * (sin (1 / 10000) * sin (1 / 10000)), 0, 0, 0, 0, 0, 0, 0, 0],
           [0, 0, 0, 0, 10000000 * (sin (1 / 10000) * sin (1 / 10000)), 0, 0, 0, 0, 0, 0, 0],
           [0, 0, 0, 0, 0, 10000000 * (sin (1 / 10000) * sin (1 / 10000)), 0, 0, 0, 0, 0, 0],
           [0, 0, 0, 0, 0, 0, 101 / 1000, 0, 0, 0, 0, 0],
           [0, 0, 0, 0, 0, 0, 0, 101 / 1000, 0, 0, 0, 0],
           [0, 0, 0, 0, 0, 0, 0, 0, 101 / 1000, 0, 0, 0],
           [0, 0, 0, 0, 0, 0, 0, 0, 0, 101 / 1000, 0, 0],
           [0, 0, 0, 0, 0, 0, 0, 0, 0, 0, 101 / 1000, 0],
           [0, 0, 0, 0, 0, 0, 0, 0, 0, 0, 0, 101 / 1000]]"
proof -
  have c: "cos ([0, 0, 0, 0, 0, 0, 0, 0, 0, 0, 0, 0] ! 4 + 0.0001 :: real) \<noteq> 0"
    by (simp add: cos_small_nonzero)
  have "P (prediction_stage 0 (initialization s)) =
          Some (mat_add (mat_mul (mat_mul F_dt0 P_initial) (mat_transpose F_dt0))
                  (E_pred (initialization s)))"
    using prediction_stage_dt0 [OF initial_state(1) _ _ c initial_state(2), of s] by simp
  also have "mat_add (mat_mul (mat_mul F_dt0 P_initial) (mat_transpose F_dt0))
                  (E_pred (initialization s)) =
       [[1 / 10, 0, 0, 0, 0, 0, 0, 0, 0, 0, 0, 0],
           [0, 1 / 10, 0, 0, 0, 0, 0, 0, 0, 0, 0, 0],
           [0, 0, 1 / 10, 0, 0, 0, 0, 0, 0, 0, 0, 0],
           [0, 0, 0, 10000000 * (sin (1 / 10000) * sin (1 / 10000)), 0, 0, 0, 0, 0, 0, 0, 0],
           [0, 0, 0, 0, 10000000 * (sin (1 / 10000) * sin (1 / 10000)), 0, 0, 0, 0, 0, 0, 0],
           [0, 0, 0, 0, 0, 10000000 * (sin (1 / 10000) * sin (1 / 10000)), 0, 0, 0, 0, 0, 0],
           [0, 0, 0, 0, 0, 0, 101 / 1000, 0, 0, 0, 0, 0],
           [0, 0, 0, 0, 0, 0, 0, 101 / 1000, 0, 0, 0, 0],
           [0, 0, 0, 0, 0, 0, 0, 0, 101 / 1000, 0, 0, 0],
           [0, 0, 0, 0, 0, 0, 0, 0, 0, 101 / 1000, 0, 0],
           [0, 0, 0, 0, 0, 0, 0, 0, 0, 0, 101 / 1000, 0],
           [0, 0, 0, 0, 0, 0, 0, 0, 0, 0, 0, 101 / 1000]]"
    by (simp add: F_dt0_explicit P_initial_explicit E_pred_initial mat_mul_def mat_vec_def
        mat_transpose_def mat_col_def dot_def upts mat_add_def vec_add_def)
  finally show ?thesis .
qed

text \<open>
  C5 (amended). For every state \<open>X\<close> of 12 components at which the prediction model and
  its perturbation in the pitch have a value, and every 12\<times>12 covariance \<open>P\<close>, the
  prediction stage with \<open>dt = 0\<close> leaves \<open>X\<close> unchanged and replaces \<open>P\<close> by
  \<open>F P F\<^sup>T + Q_pred\<close>, where \<open>F\<close> is the identity but for the diagonal entries of the
  three angle rows, which are \<open>sin(0.0001)/0.0001\<close>: the angle rows and the angle
  columns of \<open>P\<close> are each scaled by that factor before \<open>Q_pred\<close> is added.
\<close>

theorem prediction_stage_zero_dt:
  assumes "X s = Some x" and "length x = 12" and "cos (x ! 4) \<noteq> 0"
    and "cos (x ! 4 + 0.0001) \<noteq> 0" and "P s = Some p" and "mat_dims 12 12 p"
  shows "X (prediction_stage 0 s) = Some x \<and>
         P (prediction_stage 0 s) =
           Some (mat_add (mat_mul (mat_mul F_dt0 p) (mat_transpose F_dt0)) (E_pred s)) \<and>
         mat_mul (mat_mul F_dt0 p) (mat_transpose F_dt0) = angle_rows_scaled p"
  by (simp add: prediction_stage_dt0 [OF assms(1-5)] F_dt0_product [OF assms(6)])

theorem prediction_stage_zero_dt_witness:
  "X (initialization blank_filter) = Some [0, 0, 0, 0, 0, 0, 0, 0, 0, 0, 0, 0] \<and>
   length [0, 0, 0, 0, 0, 0, 0, 0, 0, 0, 0, 0 :: real] = 12 \<and>
   cos (0 :: real) \<noteq> 0 \<and> cos (0.0001 :: real) \<noteq> 0 \<and>
   P (initialization blank_filter) = Some P_initial \<and> mat_dims 12 12 P_initial \<and>
   X (prediction_stage 0 (initialization blank_filter)) = Some [0, 0, 0, 0, 0, 0, 0, 0, 0, 0, 0, 0] \<and>
   P (prediction_stage 0 (initialization blank_filter)) =
     Some (mat_add (angle_rows_scaled P_initial) (E_pred (initialization blank_filter)))"
proof -
  have c0: "cos ([0, 0, 0, 0, 0, 0, 0, 0, 0, 0, 0, 0] ! 4 :: real) \<noteq> 0"
    by simp
  have c1: "cos ([0, 0, 0, 0, 0, 0, 0, 0, 0, 0, 0, 0] ! 4 + 0.0001 :: real) \<noteq> 0"
    by (simp add: cos_small_nonzero)
  have l: "length [0, 0, 0, 0, 0, 0, 0, 0, 0, 0, 0, 0 :: real] = 12"
    by simp
  from prediction_stage_zero_dt [OF initial_state(1) l c0 c1 initial_state(2) P_initial_dims, of blank_filter]
    initial_state [of blank_filter] c0 c1 P_initial_dims
  show ?thesis
    by simp
qed

text \<open>
  C5 as stated fails at the initial state: after a prediction with \<open>dt = 0\<close> the roll
  variance is \<open>0.1 (sin(0.0001)/0.0001)\<^sup>2\<close>, which is below the \<open>0.1\<close> of \<open>P + Q_pred\<close>.
\<close>

theorem prediction_stage_zero_dt_not_additive:
  "P (prediction_stage 0 (initialization blank_filter))
     \<noteq> Some (mat_add P_initial (E_pred (initialization blank_filter)))"
proof -
  have s: "sin (1 / 10000 :: real) < 1 / 10000" "0 < sin (1 / 10000 :: real)"
    using sin_less_self [of "1 / 10000"] sin_gt_zero2 [of "1 / 10000"] pi_ge_two by simp_all
  have "sin (1 / 10000 :: real) * sin (1 / 10000) < (1 / 10000) * (1 / 10000)"
    using s by (intro mult_strict_mono) simp_all
  then have ne: "10000000 * (sin (1 / 10000 :: real) * sin (1 / 10000)) \<noteq> 1 / 10"
    by simp
  have "mat_add P_initial (E_pred (initialization blank_filter)) ! 3 ! 3 = 1 / 10"
    by (simp add: P_initial_explicit E_pred_initial mat_add_def vec_add_def)
  moreover have "the (P (prediction_stage 0 (initialization blank_filter))) ! 3 ! 3
      = 10000000 * (sin (1 / 10000) * sin (1 / 10000))"
    by (simp add: initial_prediction_dt0)
  ultimately show ?thesis
    using ne by auto
qed

section \<open>Corrections with a measurement equal to the prediction\<close>

text \<open>
  C6 (amended). For every state \<open>X\<close> of 12 components and covariance \<open>P\<close> of 12 rows
  for which the innovation covariance of the correction can be inverted: the wheel
  correction with a measurement equal to \<open>(X(6), X(11))\<close> leaves \<open>X\<close> unchanged, and the
  inertial correction with measured roll, pitch and yaw equal to the components 3 to 5
  of \<open>X\<close> leaves \<open>X\<close> unchanged.
\<close>

theorem correction_fixed_point:
  assumes "X s = Some x" and "length x = 12" and "P s = Some p" and "length p = 12"
  shows "(wheelMeasure s = [x ! 6, x ! 11] \<and> wheel_innovation_invertible s \<longrightarrow>
            X (correction_wheel_stage dt s) = Some x) \<and>
         (vec_block 6 3 (imuMeasure s) = vec_block 3 3 x \<and> imu_innovation_invertible s \<longrightarrow>
            X (correction_imu_stage dt s) = Some x)"
  using wheel_fixed_point [OF assms] imu_fixed_point [OF assms] by blast

theorem correction_fixed_point_witness:
  "X sampled_state = Some [0, 0, 0, 0, 0, 0, 0, 0, 0, 0, 0, 0] \<and>
   length [0, 0, 0, 0, 0, 0, 0, 0, 0, 0, 0, 0 :: real] = 12 \<and>
   P sampled_state = Some P_half \<and> length P_half = 12 \<and>
   wheelMeasure sampled_state = [0, 0] \<and> wheel_innovation_invertible sampled_state \<and>
   vec_block 6 3 (imuMeasure sampled_state) = [0, 0, 0] \<and> imu_innovation_invertible sampled_state \<and>
   X (correction_wheel_stage (1 / 20) sampled_state) = Some [0, 0, 0, 0, 0, 0, 0, 0, 0, 0, 0, 0] \<and>
   X (correction_imu_stage (1 / 100) sampled_state) = Some [0, 0, 0, 0, 0, 0, 0, 0, 0, 0, 0, 0]"
proof -
  have l: "length [0, 0, 0, 0, 0, 0, 0, 0, 0, 0, 0, 0 :: real] = 12"
    by simp
  have w: "wheelMeasure sampled_state
             = [[0, 0, 0, 0, 0, 0, 0, 0, 0, 0, 0, 0] ! 6, [0, 0, 0, 0, 0, 0, 0, 0, 0, 0, 0, 0] ! 11]"
    by (simp add: sampled_measure)
  have i: "vec_block 6 3 (imuMeasure sampled_state) = vec_block 3 3 [0, 0, 0, 0, 0, 0, 0, 0, 0, 0, 0, 0]"
    by (simp add: sampled_measure vec_block_3_3_zero)
  from correction_fixed_point [OF sampled_XP(1) l sampled_XP(2) length_P_half, of "1 / 20"]
    w sampled_wheel_invertible
  have a: "X (correction_wheel_stage (1 / 20) sampled_state) = Some [0, 0, 0, 0, 0, 0, 0, 0, 0, 0, 0, 0]"
    by blast
  from correction_fixed_point [OF sampled_XP(1) l sampled_XP(2) length_P_half, of "1 / 100"]
    i sampled_imu_invertible
  have b: "X (correction_imu_stage (1 / 100) sampled_state) = Some [0, 0, 0, 0, 0, 0, 0, 0, 0, 0, 0, 0]"
    by blast
  from a b sampled_XP length_P_half sampled_measure sampled_wheel_invertible sampled_imu_invertible
  show ?thesis
    by simp
qed

text \<open>
  C6 as stated fails where the innovation covariance cannot be inverted: in the filter
  with zero state, covariance \<open>0.5 I\<close> and inertial gain 0.5, after an inertial message
  that reports roll, pitch and yaw 0, equal to the components 3 to 5 of \<open>X\<close>, with
  orientation covariance entry 0 equal to \<open>-1\<close> and the others 0, \<open>S\<close> is the diagonal
  matrix of \<open>0.5 - 0.5 = 0\<close>, 0.5 and 0.5, with every number held exactly in binary, and
  the inertial correction turns \<open>X\<close> into non-finite values.
\<close>

theorem inertial_fixed_point_lost:
  "X no_orientation_state = Some [0, 0, 0, 0, 0, 0, 0, 0, 0, 0, 0, 0] \<and>
   P no_orientation_state = Some P_half \<and>
   vec_block 6 3 (imuMeasure no_orientation_state) = vec_block 3 3 [0, 0, 0, 0, 0, 0, 0, 0, 0, 0, 0, 0] \<and>
   S_imu no_orientation_state = Some [[0, 0, 0], [0, 1 / 2, 0], [0, 0, 1 / 2]] \<and>
   X (correction_imu_stage (1 / 100) no_orientation_state) = None"
  using singular_imu [OF no_orientation_singular, of "1 / 100"]
  by (simp add: no_orientation_XP no_orientation_measure no_orientation_S_imu vec_block_3_3_zero)

section \<open>The wheel measurement covariance\<close>

lemma wheel_covariance_stored:
  assumes "reachable getRPY cfg s"
  shows "E_wheel (wheelOdometryHandler cfg m s) =
           [[wheelG cfg * twist_covariance m ! 0, 0], [0, 100 * twist_covariance m ! 35]]"
  using reachable_E_wheel [OF assms] by (auto simp: handler_fields set_coeff_def)

text \<open>
  C7 (amended). For every incoming wheel odometry message, the stored wheel measurement
  covariance is the diagonal 2\<times>2 matrix whose forward-velocity entry is the message's
  covariance entry 0 scaled by the configurable wheel gain, and whose yaw-rate entry is
  the message's covariance entry 35 scaled by the fixed factor 100.
\<close>

theorem wheel_covariance_amended:
  assumes "reachable getRPY cfg s"
  shows "E_wheel (wheelOdometryHandler cfg m s) =
           [[wheelG cfg * twist_covariance m ! 0, 0], [0, 100 * twist_covariance m ! 35]]"
  by (rule wheel_covariance_stored [OF assms])

theorem wheel_covariance_amended_witness:
  "reachable level_RPY default_config (initialization blank_filter) \<and>
   E_wheel (wheelOdometryHandler default_config sample_wheel (initialization blank_filter)) =
     [[0.05, 0], [0, 100]]"
proof -
  have r: "reachable level_RPY default_config (initialization blank_filter)"
    by (rule reachable_init)
  from wheel_covariance_amended [OF r, of sample_wheel] r show ?thesis
    by (simp add: default_config_def sample_wheel_def)
qed

text \<open>
  C7 as stated fails for the yaw-rate entry: with the default wheel gain 0.05 and a message
  whose covariance entries are all 1, the stored entry is 100, not 0.05.
\<close>

theorem wheel_yaw_rate_not_scaled_by_gain:
  "E_wheel (wheelOdometryHandler default_config sample_wheel (initialization blank_filter)) ! 1 ! 1
     \<noteq> wheelG default_config * twist_covariance sample_wheel ! 35"
  using wheel_covariance_stored [OF reachable_init [of level_RPY default_config blank_filter], of sample_wheel]
  by (simp add: default_config_def sample_wheel_def)

section \<open>The wrapped angle difference\<close>

lemma atan2_sin_cos:
  assumes "- pi < r" "r \<le> pi"
  shows "atan2 (sin r) (cos r) = r"
proof -
  consider "- (pi / 2) < r \<and> r < pi / 2" | "r = pi / 2" | "r = - (pi / 2)"
    | "pi / 2 < r" | "r < - (pi / 2)"
    by linarith
  then show ?thesis
  proof cases
    case 1
    then have "0 < cos r" by (simp add: cos_gt_zero_pi)
    moreover have "arctan (tan r) = r" using 1 by (simp add: arctan_tan)
    ultimately show ?thesis by (simp add: atan2_def tan_def)
  next
    case 2
    show ?thesis unfolding 2 by (simp add: atan2_def)
  next
    case 3
    show ?thesis unfolding 3 by (simp add: atan2_def)
  next
    case 4
    let ?q = "r - pi"
    have q: "- (pi / 2) < ?q" "?q \<le> 0" using 4 assms by simp_all
    have "0 < cos ?q" using q by (intro cos_gt_zero_pi) simp_all
    then have c: "cos r < 0" by simp
    have "0 \<le> sin (- ?q)" using q assms by (intro sin_ge_zero) simp_all
    then have s: "0 \<le> sin r" by simp
    have "tan r = tan ?q" using tan_periodic_pi [of ?q] by simp
    moreover have "arctan (tan ?q) = ?q" using q by (intro arctan_tan) simp_all
    ultimately have "arctan (sin r / cos r) = r - pi" by (simp add: tan_def)
    with c s show ?thesis by (simp add: atan2_def)
  next
    case 5
    let ?q = "r + pi"
    have q: "0 < ?q" "?q < pi / 2" using 5 assms by simp_all
    have "0 < cos ?q" using q by (intro cos_gt_zero) simp_all
    then have c: "cos r < 0" by simp
    have "0 < sin ?q" using q by (intro sin_gt_zero) simp_all
    then have s: "sin r < 0" by simp
    have "tan ?q = tan r" by simp
    moreover have "arctan (tan ?q) = ?q" using q by (intro arctan_tan) simp_all
    ultimately have "arctan (sin r / cos r) = r + pi" by (simp add: tan_def)
    with c s show ?thesis by (simp add: atan2_def)
  qed
qed

lemma angle_difference_range:
  "- pi < angle_difference a b \<and> angle_difference a b \<le> pi \<and>
   (\<exists>k::int. angle_difference a b = (a - b) + 2 * pi * of_int k)"
proof -
  obtain y where y: "- pi < y" "y \<le> pi" "sin y = sin (a - b)" "cos y = cos (a - b)"
    using sincos_principal_value [of "a - b"] by blast
  have "angle_difference a b = y"
    using atan2_sin_cos [OF y(1,2)] y(3,4) by (simp add: angle_difference_def)
  moreover obtain n :: int where "y = (a - b) + 2 * pi * of_int n"
    using y(3,4) sin_cos_eq_iff [of y "a - b"] by blast
  ultimately show ?thesis using y(1,2) by blast
qed

lemma angle_difference_358:
  "angle_difference (359 * pi / 180) (1 * pi / 180) = - (2 * pi / 180)"
proof -
  have e: "359 * pi / 180 - 1 * pi / 180 = - (2 * pi / 180) + 2 * pi" by simp
  have "atan2 (sin (- (2 * pi / 180))) (cos (- (2 * pi / 180))) = - (2 * pi / 180)"
    by (rule atan2_sin_cos) (simp_all add: field_simps)
  then show ?thesis
    unfolding angle_difference_def e sin_periodic cos_periodic .
qed

text \<open>
  C8. The wrapped difference \<open>atan2 (sin \<Delta>) (cos \<Delta>)\<close> of the angles 359 and 1 degrees is
  -2 degrees, not 358 degrees; for any two angles it lies in \<open>(-\<pi>, \<pi>]\<close> and differs
  from the raw difference by a whole number of turns.
\<close>

theorem angle_difference_wraps:
  "angle_difference (359 * pi / 180) (1 * pi / 180) = - (2 * pi / 180) \<and>
   angle_difference (359 * pi / 180) (1 * pi / 180) \<noteq> 358 * pi / 180 \<and>
   - pi < angle_difference a b \<and> angle_difference a b \<le> pi \<and>
   (\<exists>k::int. angle_difference a b = (a - b) + 2 * pi * of_int k)"
proof -
  have ne: "- (2 * pi / 180) \<noteq> 358 * pi / 180"
    using pi_gt_zero by simp
  show ?thesis
    unfolding angle_difference_358
    using angle_difference_range [of a b] ne by blast
qed

section \<open>The elapsed times handed to the corrections\<close>

text \<open>
  C9. In every state the node reaches, whatever messages have arrived, the elapsed time
  that the loop hands to the inertial correction is 0.01, to the wheel correction 0.05
  and to the range correction 0.1: the callbacks store the stamp difference and then
  overwrite it with the constant, and the loop's correction blocks act as the blocks
  with the constants written in.
\<close>

theorem correction_dt_constants:
  assumes "reachable getRPY cfg s"
  shows "(imuNew s \<longrightarrow> imu_dt s = 0.01) \<and> wheel_dt s = 0.05 \<and> lidar_dt s = 0.1 \<and>
         run_imu cfg s = run_imu_fixed cfg s \<and>
         run_wheel cfg s = run_wheel_fixed cfg s \<and>
         run_lidar cfg s = run_lidar_fixed cfg s \<and>
         imu_dt (imuHandler getRPY cfg mi s) = 0.01 \<and>
         wheel_dt (wheelOdometryHandler cfg mw s) = 0.05 \<and>
         lidar_dt (laserOdometryHandler getRPY cfg ml s) = 0.1"
proof -
  from reachable_dts [OF assms]
  have i: "imuNew s \<Longrightarrow> imu_dt s = 0.01" and w: "wheel_dt s = 0.05" and l: "lidar_dt s = 0.1"
    by simp_all
  have "run_imu cfg s = run_imu_fixed cfg s"
  proof (cases "imuNew s")
    case True
    show ?thesis by (simp only: run_imu_def run_imu_fixed_def i [OF True])
  next
    case False
    then show ?thesis by (simp add: run_imu_def run_imu_fixed_def)
  qed
  moreover have "run_wheel cfg s = run_wheel_fixed cfg s"
    by (simp only: run_wheel_def run_wheel_fixed_def w)
  moreover have "run_lidar cfg s = run_lidar_fixed cfg s"
    by (simp only: run_lidar_def run_lidar_fixed_def l)
  ultimately show ?thesis
    using i w l by (simp only: handler_fields) blast
qed

theorem correction_dt_constants_witness:
  "reachable level_RPY default_config
     (callback level_RPY default_config (ImuMsg sample_imu) (initialization blank_filter)) \<and>
   imu_dt (callback level_RPY default_config (ImuMsg sample_imu) (initialization blank_filter)) = 0.01 \<and>
   wheel_dt (callback level_RPY default_config (ImuMsg sample_imu) (initialization blank_filter)) = 0.05 \<and>
   lidar_dt (callback level_RPY default_config (ImuMsg sample_imu) (initialization blank_filter)) = 0.1 \<and>
   run_imu default_config (callback level_RPY default_config (ImuMsg sample_imu) (initialization blank_filter))
     = run_imu_fixed default_config
         (callback level_RPY default_config (ImuMsg sample_imu) (initialization blank_filter))"
proof -
  have r: "reachable level_RPY default_config
     (callback level_RPY default_config (ImuMsg sample_imu) (initialization blank_filter))"
    by (intro reachable_callback reachable_init)
  have n: "imuNew (callback level_RPY default_config (ImuMsg sample_imu) (initialization blank_filter))"
    by (simp add: handler_fields)
  from correction_dt_constants [OF r] r n show ?thesis
    by blast
qed

section \<open>The retained range pose\<close>

lemma retained_fields:
  "lidarMeasureL (prediction_stage dt s) = lidarMeasureL s" "E_lidarL (prediction_stage dt s) = E_lidarL s"
  "lidarMeasureL (correction_imu_stage dt s) = lidarMeasureL s" "E_lidarL (correction_imu_stage dt s) = E_lidarL s"
  "lidarMeasureL (correction_wheel_stage dt s) = lidarMeasureL s" "E_lidarL (correction_wheel_stage dt s) = E_lidarL s"
  "lidarMeasureL (publish_odom c s) = lidarMeasureL s" "E_lidarL (publish_odom c s) = E_lidarL s"
  "lidarMeasureL (correction_lidar_stage dt s) = lidarMeasure s" "E_lidarL (correction_lidar_stage dt s) = E_lidar s"
  "published (correction_lidar_stage dt s) = published s @ [IndirectLidarMeasurement (Y_lidar dt s) (Q_lidar dt s)]"
  by (simp_all add: prediction_stage_def correction_imu_stage_def correction_wheel_stage_def
      correction_lidar_stage_def publish_indirect_lidar_measurement_def publish_odom_def Let_def)

lemma callback_retained:
  "lidarMeasureL (callback getRPY cfg m s) = lidarMeasureL s"
  "E_lidarL (callback getRPY cfg m s) = E_lidarL s"
  by (cases m; simp add: handler_fields)+

lemma before_range_correction_retained:
  "before_range_correction getRPY cfg s \<Longrightarrow> lidarMeasureL s = zero_vec 6 \<and> E_lidarL s = zero_mat 6 6"
proof (induction rule: before_range_correction.induct)
  case (before_init s)
  then show ?case by (simp add: initialization_def N_LIDAR_def)
next
  case (before_callback s m)
  then show ?case by (simp add: callback_retained)
next
  case (before_prediction s t_now t_last)
  then show ?case by (simp add: run_prediction_def retained_fields Let_def)
next
  case (before_imu s)
  then show ?case by (simp add: run_imu_def retained_fields Let_def)
next
  case (before_wheel s)
  then show ?case by (simp add: run_wheel_def retained_fields Let_def)
qed

lemma indirect_from_origin:
  assumes "length u = 6" "dt \<noteq> 0"
  shows "indirect_lidar_measurement u (zero_vec 6) dt =
           Some [u ! 0 / dt, u ! 1 / dt, u ! 2 / dt,
                 angle_difference (u ! 3) 0 / dt, angle_difference (u ! 4) 0 / dt,
                 angle_difference (u ! 5) 0 / dt]"
proof -
  from length_6_list [OF assms(1)] obtain a0 a1 a2 a3 a4 a5 where u: "u = [a0, a1, a2, a3, a4, a5]"
    by (elim exE)
  have z: "zero_vec 6 = [0, 0, 0, 0, 0, 0]"
    by (simp add: zero_vec_def numeral_eq_Suc)
  show ?thesis
    unfolding u z using assms(2)
    by (simp add: indirect_lidar_measurement_def Let_def euler_rate_jacobian_def inverse3_def det3_def
        cofactors3_def AngleAxis_UnitX_def AngleAxis_UnitY_def AngleAxis_UnitZ_def
        mat_mul_def mat_vec_def mat_transpose_def mat_col_def dot_def upts
        set_mat_block_def set_vec_block_def vec_block_def vec_sub_def N_LIDAR_def zero_mat_6_6
        vec_div_def z)
qed

lemma Q_from_origin:
  assumes "lidarMeasureL s = zero_vec 6" "E_lidarL s = zero_mat 6 6" "dt \<noteq> 0"
  shows "\<exists>G. jacobian_lidar_measurement (lidarMeasure s) (zero_vec 6) dt = Some G \<and>
             Q_lidar dt s = Some (mat_add (mat_mul (mat_mul G (E_lidar s)) (mat_transpose G)) (zero_mat 6 6))"
proof -
  have z: "zero_vec 6 = [0, 0, 0, 0, 0, 0]"
    by (simp add: zero_vec_def numeral_eq_Suc)
  have c: "cos (zero_vec 6 ! 4) \<noteq> 0"
    by (simp add: z)
  have d: "\<forall>i<6. cos (((zero_vec 6)[i := zero_vec 6 ! i + 0.0000001]) ! 4) \<noteq> 0"
    unfolding z by (auto simp: less_Suc_eq numeral_eq_Suc cos_small_nonzero)
  from jacobian_lidar_measurement_defined [OF c assms(3), of "lidarMeasure s"]
  obtain G where G: "jacobian_lidar_measurement (lidarMeasure s) (zero_vec 6) dt = Some G"
    by auto
  from jacobian_lidar_measurementL_defined [OF d c assms(3), of "lidarMeasure s"]
  obtain Gl where Gl: "jacobian_lidar_measurementL (lidarMeasure s) (zero_vec 6) dt = Some Gl"
    "mat_dims 6 6 Gl"
    by auto
  show ?thesis
    by (simp add: Q_lidar_def assms(1,2) G Gl mat_mul_zero_middle)
qed

lemma laserOdometryHandler_measure:
  "lidarMeasure (laserOdometryHandler g cfg m s) =
     set_vec_block 3 [g (pose_orientation m) ! 0, g (pose_orientation m) ! 1, g (pose_orientation m) ! 2]
       (set_vec_block 0 [pose_position m ! 0, pose_position m ! 1, pose_position m ! 2] (lidarMeasure s))"
  "E_lidar (laserOdometryHandler g cfg m s) =
     adaptive_covariance cfg (twist_linear m ! 0) (twist_angular m ! 0)"
  by (cases "lidarActivated s"; simp add: laserOdometryHandler_def Let_def)+

lemma scanned_measure: "lidarMeasure scanned_state = [1, 2, 3, 0, 0, 0]"
  by (simp add: scanned_state_def laserOdometryHandler_measure initial_measurements sample_laser_def
      level_RPY_def set_vec_block_def)

lemma scanned_before: "before_range_correction level_RPY default_config scanned_state"
  unfolding scanned_state_def
  using before_callback [OF before_init, of level_RPY default_config "LaserMsg sample_laser" blank_filter]
  by simp

text \<open>
  C10. \<^verbatim>\<open>initialization()\<close> sets the retained previous range pose to the zero vector
  of six components and its retained covariance to the 6\<times>6 zero matrix, and nothing
  changes them before the first range correction. That correction therefore derives its
  twist from the difference between the staged range pose and the origin, and the
  retained covariance adds the zero matrix to the propagated covariance. Every range
  correction replaces the retained pose and covariance by those of the current scan; no
  callback and no other stage writes them.
\<close>

theorem retained_range_pose:
  "lidarMeasureL (initialization s0) = zero_vec 6 \<and> E_lidarL (initialization s0) = zero_mat 6 6 \<and>
   (before_range_correction getRPY cfg s \<longrightarrow>
      lidarMeasureL s = zero_vec 6 \<and> E_lidarL s = zero_mat 6 6) \<and>
   (before_range_correction getRPY cfg s \<and> length (lidarMeasure s) = 6 \<and> dt \<noteq> 0 \<longrightarrow>
      Y_lidar dt s =
        Some [lidarMeasure s ! 0 / dt, lidarMeasure s ! 1 / dt, lidarMeasure s ! 2 / dt,
              angle_difference (lidarMeasure s ! 3) 0 / dt,
              angle_difference (lidarMeasure s ! 4) 0 / dt,
              angle_difference (lidarMeasure s ! 5) 0 / dt] \<and>
      (\<exists>G. jacobian_lidar_measurement (lidarMeasure s) (zero_vec 6) dt = Some G \<and>
           Q_lidar dt s =
             Some (mat_add (mat_mul (mat_mul G (E_lidar s)) (mat_transpose G)) (zero_mat 6 6)))) \<and>
   published (correction_lidar_stage dt s) =
     published s @ [IndirectLidarMeasurement (Y_lidar dt s) (Q_lidar dt s)] \<and>
   lidarMeasureL (correction_lidar_stage dt s) = lidarMeasure s \<and>
   E_lidarL (correction_lidar_stage dt s) = E_lidar s \<and>
   lidarMeasureL (callback getRPY cfg m s) = lidarMeasureL s \<and>
   E_lidarL (callback getRPY cfg m s) = E_lidarL s \<and>
   lidarMeasureL (prediction_stage dt s) = lidarMeasureL s \<and>
   E_lidarL (prediction_stage dt s) = E_lidarL s \<and>
   lidarMeasureL (correction_imu_stage dt s) = lidarMeasureL s \<and>
   E_lidarL (correction_imu_stage dt s) = E_lidarL s \<and>
   lidarMeasureL (correction_wheel_stage dt s) = lidarMeasureL s \<and>
   E_lidarL (correction_wheel_stage dt s) = E_lidarL s \<and>
   lidarMeasureL (publish_odom c s) = lidarMeasureL s \<and>
   E_lidarL (publish_odom c s) = E_lidarL s"
proof -
  have init: "lidarMeasureL (initialization s0) = zero_vec 6 \<and> E_lidarL (initialization s0) = zero_mat 6 6"
    by (simp add: initialization_def N_LIDAR_def)
  have first: "Y_lidar dt s =
        Some [lidarMeasure s ! 0 / dt, lidarMeasure s ! 1 / dt, lidarMeasure s ! 2 / dt,
              angle_difference (lidarMeasure s ! 3) 0 / dt,
              angle_difference (lidarMeasure s ! 4) 0 / dt,
              angle_difference (lidarMeasure s ! 5) 0 / dt] \<and>
      (\<exists>G. jacobian_lidar_measurement (lidarMeasure s) (zero_vec 6) dt = Some G \<and>
           Q_lidar dt s =
             Some (mat_add (mat_mul (mat_mul G (E_lidar s)) (mat_transpose G)) (zero_mat 6 6)))"
    if b: "before_range_correction getRPY cfg s" and l: "length (lidarMeasure s) = 6" and t: "dt \<noteq> 0"
  proof -
    from before_range_correction_retained [OF b]
    have r: "lidarMeasureL s = zero_vec 6" "E_lidarL s = zero_mat 6 6"
      by simp_all
    show ?thesis
      using indirect_from_origin [OF l t] Q_from_origin [OF r t]
      by (simp add: Y_lidar_def r)
  qed
  show ?thesis
    using init before_range_correction_retained [of getRPY cfg s] first
    by (simp only: retained_fields callback_retained simp_thms) blast
qed

theorem retained_range_pose_witness:
  "before_range_correction level_RPY default_config scanned_state \<and>
   length (lidarMeasure scanned_state) = 6 \<and> (1 / 10 :: real) \<noteq> 0 \<and>
   lidarMeasureL scanned_state = zero_vec 6 \<and> E_lidarL scanned_state = zero_mat 6 6 \<and>
   Y_lidar (1 / 10) scanned_state = Some [10, 20, 30, 0, 0, 0] \<and>
   lidarMeasureL (correction_lidar_stage (1 / 10) scanned_state) = [1, 2, 3, 0, 0, 0]"
proof -
  note t = retained_range_pose [of blank_filter level_RPY default_config scanned_state "1 / 10"]
  have l: "length (lidarMeasure scanned_state) = 6"
    by (simp add: scanned_measure)
  have n: "(1 / 10 :: real) \<noteq> 0"
    by simp
  from t scanned_before have r: "lidarMeasureL scanned_state = zero_vec 6 \<and> E_lidarL scanned_state = zero_mat 6 6"
    by blast
  from t scanned_before l n
  have "Y_lidar (1 / 10) scanned_state =
        Some [lidarMeasure scanned_state ! 0 / (1 / 10), lidarMeasure scanned_state ! 1 / (1 / 10),
              lidarMeasure scanned_state ! 2 / (1 / 10),
              angle_difference (lidarMeasure scanned_state ! 3) 0 / (1 / 10),
              angle_difference (lidarMeasure scanned_state ! 4) 0 / (1 / 10),
              angle_difference (lidarMeasure scanned_state ! 5) 0 / (1 / 10)]"
    by blast
  then have y: "Y_lidar (1 / 10) scanned_state = Some [10, 20, 30, 0, 0, 0]"
    by (simp add: scanned_measure angle_difference_self)
  from t have "lidarMeasureL (correction_lidar_stage (1 / 10) scanned_state) = lidarMeasure scanned_state"
    by blast
  then have c: "lidarMeasureL (correction_lidar_stage (1 / 10) scanned_state) = [1, 2, 3, 0, 0, 0]"
    by (simp add: scanned_measure)
  from scanned_before l n r y c show ?thesis
    by blast
qed


end
